theory Spec2Isabelle
  imports Main "HOL-Library.AList"
begin

section \<open>The mod updater: values, libraries and state\<close>

text \<open>
  The program is \<^verbatim>\<open>src/modupdate.py\<close>. Its functions are embedded one by one under
  their own names; the body of the \<^verbatim>\<open>for\<close> loop of \<^verbatim>\<open>main\<close> is embedded in three
  consecutive parts (\<open>main_slug\<close>, lines 123 to 135; \<open>main_fetch\<close>, lines 136 to 155;
  \<open>main_finish\<close>, lines 156 to 165) that \<open>main_body\<close> runs in sequence.

  Python values. What \<^verbatim>\<open>json5\<close> parses and what \<^verbatim>\<open>data.get("id")\<close> returns is any JSON
  value, so identifiers are values of \<open>pyval\<close>, not just strings. Text is a list of 8-bit
  characters (the Latin-1 range of Python's \<^verbatim>\<open>str\<close>); bytes are lists of the same
  characters, so that decoding Latin-1 is the identity on the codes. JSON booleans and
  floats are left out of \<open>pyval\<close>. HOL equality on \<open>pyval\<close> is Python's \<^verbatim>\<open>==\<close> wherever one
  side is hashable; Python compares two dicts irrespective of the order of their items,
  and \<^verbatim>\<open>main\<close> reaches \<^verbatim>\<open>validate_mod_id\<close> only with a hashable \<^verbatim>\<open>expected_id\<close>.
\<close>

datatype pyval =
    PyNone
  | PyStr string
  | PyInt int
  | PyList "pyval list"
  | PyDict "(string \<times> pyval) list"

text \<open>Truth value testing (\<^verbatim>\<open>not x\<close> is \<open>\<not> truthy x\<close>) and hashability (dict keys).\<close>

fun truthy :: "pyval \<Rightarrow> bool" where
  "truthy PyNone = False"
| "truthy (PyStr s) = (s \<noteq> [])"
| "truthy (PyInt i) = (i \<noteq> 0)"
| "truthy (PyList xs) = (xs \<noteq> [])"
| "truthy (PyDict kvs) = (kvs \<noteq> [])"

fun hashable :: "pyval \<Rightarrow> bool" where
  "hashable (PyList xs) = False"
| "hashable (PyDict kvs) = False"
| "hashable v = True"

text \<open>Exceptions, by class. \<^verbatim>\<open>except Exception\<close> catches every one of them.\<close>

datatype exn =
    UnicodeDecodeError
  | JSONDecodeError
  | ValueError
  | AttributeError
  | TypeError
  | KeyError
  | IndexError
  | EOFError
  | FileNotFoundError
  | BadZipFile
  | OSError
  | ConnectionError
  | RuntimeError
  | MarkupError

type_synonym bytes = "char list"

text \<open>What the program prints, by the line that prints it, with the values it puts into
  the text.\<close>

datatype msg =
    InvalidJSON string string
  | FailedToRead string exn
  | UnknownModID pyval
  | FileLine string
  | ErrorFetching string exn
  | DownloadFailedMsg exn
  | NoJarFiles
  | SkippingUnreadable string
  | NoCompatibleVersionFound string
  | UpdatingMsg string
  | NoUpdatesNeeded string
  | FailedToDownload string
  | ModIDChanged pyval pyval
  | UpdateSummary
  | NoModsUpdated
  | SummaryLine string string

text \<open>
  The cache is a Python dict from identifiers to slugs: an association list with one
  entry per key, in insertion order. \<open>AList.update\<close> overwrites in place or appends, as
  \<^verbatim>\<open>d[k] = v\<close> does. The slugs are strings: they come from \<^verbatim>\<open>input()\<close> or from the
  cache file, which only this program writes.
\<close>

type_synonym dict = "(pyval \<times> string) list"

definition dict_get :: "dict \<Rightarrow> pyval \<Rightarrow> exn + string option" where
  "dict_get d k = (if hashable k then Inr (map_of d k) else Inl TypeError)"

definition dict_set :: "dict \<Rightarrow> pyval \<Rightarrow> string \<Rightarrow> exn + dict" where
  "dict_set d k v = (if hashable k then Inr (AList.update k v d) else Inl TypeError)"

definition dict_del :: "dict \<Rightarrow> pyval \<Rightarrow> exn + dict" where
  "dict_del d k =
     (if \<not> hashable k then Inl TypeError
      else if map_of d k = None then Inl KeyError
      else Inr (AList.delete k d))"

text \<open>\<^verbatim>\<open>not slug\<close> for a slug that is \<^verbatim>\<open>None\<close> or a string, and the string itself.\<close>

fun py_not :: "string option \<Rightarrow> bool" where
  "py_not None = True"
| "py_not (Some v) = (v = [])"

fun str_of :: "string option \<Rightarrow> string" where
  "str_of None = []"
| "str_of (Some v) = v"

subsection \<open>The libraries the program calls\<close>

text \<open>
  The zip reader, the relaxed-JSON parser, the HTTP client, the console of \<^verbatim>\<open>rich\<close> and the
  file system's answers about writing and directories are not part of the repository;
  they are parameters of the model, and every theorem holds for all of them.

  An archive is the list of its entries in archive order: the name of each and what
  reading it gives. Names can repeat. \<open>namelist\<close> is \<^verbatim>\<open>z.namelist()\<close>, one name for
  each entry; \<open>zread\<close> is \<^verbatim>\<open>z.open(name)\<close> followed by the read, and a name that occurs
  more than once is resolved to the last entry that has it, as \<^verbatim>\<open>zipfile\<close> does.

  \<open>ZipFile\<close> is \<^verbatim>\<open>zipfile.ZipFile\<close> on the contents of a file. \<open>json5_load\<close> is
  \<^verbatim>\<open>json5.load\<close> on the bytes of an entry (it decodes UTF-8 and parses), \<open>json5_loads\<close>
  is \<^verbatim>\<open>json5.loads\<close> on text. \<open>requests_get\<close> is \<^verbatim>\<open>requests.get\<close> on an address and
  its query parameters (the fixed header is part of it), \<open>quote\<close> is
  \<^verbatim>\<open>urllib.parse.quote\<close>. A response carries its status, what \<^verbatim>\<open>resp.json()\<close> gives
  and its body. The registry's answer is typed as the spec describes it: a list of
  versions, each with a list of files with an address and a file name.

  \<open>rich_print\<close> is what \<^verbatim>\<open>console.print\<close> does with a message: the console reads the
  text as markup, and a text that holds a closing tag with no open tag to match (an
  identifier, a slug or the text of an exception can bring one) makes it raise
  \<^verbatim>\<open>MarkupError\<close> and print nothing. A message of the model names the exception by
  its class; \<open>rich_print\<close> stands for the printing of its text too. \<open>write_error\<close> is the exception, if any, with which
  \<^verbatim>\<open>open(dest, "wb")\<close> and the write fail for a path (a folder that does not exist, no
  permission). \<open>isdir\<close> tells the paths that are directories.
\<close>

record zipfile =
  entries :: "(string \<times> (exn + bytes)) list"

definition namelist :: "zipfile \<Rightarrow> string list" where
  "namelist z = map fst (entries z)"

definition zread :: "zipfile \<Rightarrow> string \<Rightarrow> exn + bytes" where
  "zread z name =
     (case [e \<leftarrow> entries z. fst e = name] of
        [] \<Rightarrow> Inl KeyError
      | e # es \<Rightarrow> snd (last (e # es)))"

record file_info =
  url :: string
  filename :: string

record version =
  files :: "file_info list"

record response =
  status_code :: nat
  resp_json :: "exn + version list"
  content :: bytes

record lib =
  ZipFile :: "bytes \<Rightarrow> exn + zipfile"
  json5_load :: "bytes \<Rightarrow> exn + pyval"
  json5_loads :: "string \<Rightarrow> exn + pyval"
  requests_get :: "string \<Rightarrow> (string \<times> string) list \<Rightarrow> exn + response"
  quote :: "string \<Rightarrow> string"
  rich_print :: "msg \<Rightarrow> exn option"
  write_error :: "string \<Rightarrow> exn option"
  isdir :: "string \<Rightarrow> bool"

subsection \<open>State and observable events\<close>

text \<open>
  The state is what the program reads and writes: the files by path (\<open>fs\<close>), the contents
  of the cache file (\<open>store\<close>, \<open>None\<close> when the file does not exist), the lines still to
  be read from standard input, the variables \<^verbatim>\<open>cache\<close> and \<^verbatim>\<open>updated_mods\<close> of
  \<^verbatim>\<open>main\<close>, and the trace of what the program did, in order. \<open>fs\<close> holds the files
  only; paths are compared as strings; \<^verbatim>\<open>time.sleep\<close> is left out. A message is in
  the trace when it was printed. The built-in \<^verbatim>\<open>print\<close> (lines 83 and 95) and the
  messages without a value in them cannot fail.
\<close>

datatype event =
    Print msg
  | Input string
  | CacheGet pyval
  | CacheSet pyval string
  | CacheDel pyval
  | CacheSaved dict
  | HttpGet string
  | FileWrite string
  | FileRemove string
  | Advance

record state =
  fs :: "(string \<times> bytes) list"
  store :: "dict option"
  stdin :: "string list"
  cache :: dict
  updated_mods :: "(string \<times> string) list"
  trace :: "event list"

definition emit :: "event \<Rightarrow> state \<Rightarrow> state" where
  "emit e s = s\<lparr>trace := trace s @ [e]\<rparr>"

text \<open>\<^verbatim>\<open>console.print\<close> and \<^verbatim>\<open>progress.console.print\<close> of a message with values in it.\<close>

definition console_print :: "lib \<Rightarrow> msg \<Rightarrow> state \<Rightarrow> exn option \<times> state" where
  "console_print l m s =
     (case rich_print l m of
        None \<Rightarrow> (None, emit (Print m) s)
      | Some e \<Rightarrow> (Some e, s))"

text \<open>The outcome of one iteration of the loop: the exit it took, or the exception that
  ended the program.\<close>

datatype outcome =
    SkippedByOperator
  | NoCompatibleVersion
  | AlreadyPresent
  | DownloadFailed
  | Updated
  | Crashed exn

subsection \<open>Constants and string operations\<close>

definition MOD_FOLDER :: string where
  "MOD_FOLDER = ''./.minecraft/mods''"

definition LOADER :: string where
  "LOADER = ''fabric''"

definition MODRINTH_API :: string where
  "MODRINTH_API = ''https://api.modrinth.com/v2''"

definition endswith :: "string \<Rightarrow> string \<Rightarrow> bool" where
  "endswith s suf = (length suf \<le> length s \<and> drop (length s - length suf) s = suf)"

text \<open>\<^verbatim>\<open>x.count("/")\<close>.\<close>

definition count_slash :: "string \<Rightarrow> nat" where
  "count_slash x = count_list x (CHR ''/'')"

text \<open>\<^verbatim>\<open>str.strip()\<close> and \<^verbatim>\<open>str.lower()\<close> on the Latin-1 range.\<close>

definition isspace :: "char \<Rightarrow> bool" where
  "isspace c = (let n = (of_char c :: nat) in
     (9 \<le> n \<and> n \<le> 13) \<or> (28 \<le> n \<and> n \<le> 32) \<or> n = 133 \<or> n = 160)"

definition strip :: "string \<Rightarrow> string" where
  "strip s = rev (dropWhile isspace (rev (dropWhile isspace s)))"

definition lower_char :: "char \<Rightarrow> char" where
  "lower_char c = (let n = (of_char c :: nat) in
     if (65 \<le> n \<and> n \<le> 90) \<or> (192 \<le> n \<and> n \<le> 214) \<or> (216 \<le> n \<and> n \<le> 222)
     then char_of (n + 32) else c)"

definition lower :: "string \<Rightarrow> string" where
  "lower s = map lower_char s"

text \<open>\<^verbatim>\<open>os.path.join\<close> of two components (POSIX).\<close>

definition os_path_join :: "string \<Rightarrow> string \<Rightarrow> string" where
  "os_path_join a b =
     (if b \<noteq> [] \<and> hd b = CHR ''/'' then b
      else if a = [] \<or> last a = CHR ''/'' then a @ b
      else a @ ''/'' @ b)"

text \<open>\<^verbatim>\<open>os.listdir\<close>: the names directly under a directory, in the order of \<open>fs\<close>.\<close>

definition os_listdir :: "string \<Rightarrow> state \<Rightarrow> string list" where
  "os_listdir d s =
     [drop (length d + 1) p. p \<leftarrow> map fst (fs s),
        take (length d + 1) p = d @ ''/'',
        drop (length d + 1) p \<noteq> [],
        CHR ''/'' \<notin> set (drop (length d + 1) p)]"

definition os_remove :: "string \<Rightarrow> state \<Rightarrow> exn option \<times> state" where
  "os_remove path s =
     (if map_of (fs s) path = None then (Some FileNotFoundError, s)
      else (None, emit (FileRemove path) (s\<lparr>fs := AList.delete path (fs s)\<rparr>)))"

section \<open>The functions of the program\<close>

subsection \<open>The cache file (lines 27 to 35)\<close>

text \<open>
  \<open>store\<close> holds the mapping that was written last. (\<^verbatim>\<open>json.dump\<close> writes a key that
  is \<^verbatim>\<open>None\<close> or a number as text, so a later run reads such a key back as a string;
  the properties below are about one run and about caches with string keys across
  runs.)
\<close>

definition load_cache :: "state \<Rightarrow> dict" where
  "load_cache s = (case store s of None \<Rightarrow> [] | Some d \<Rightarrow> d)"

definition save_cache :: "dict \<Rightarrow> state \<Rightarrow> state" where
  "save_cache c s = emit (CacheSaved c) (s\<lparr>store := Some c\<rparr>)"

text \<open>Reads and writes of the variable \<^verbatim>\<open>cache\<close>, recorded in the trace.\<close>

definition cache_get :: "pyval \<Rightarrow> state \<Rightarrow> (exn + string option) \<times> state" where
  "cache_get k s =
     (case dict_get (cache s) k of
        Inl e \<Rightarrow> (Inl e, s)
      | Inr r \<Rightarrow> (Inr r, emit (CacheGet k) s))"

definition cache_set :: "pyval \<Rightarrow> string \<Rightarrow> state \<Rightarrow> exn option \<times> state" where
  "cache_set k v s =
     (case dict_set (cache s) k v of
        Inl e \<Rightarrow> (Some e, s)
      | Inr d \<Rightarrow> (None, emit (CacheSet k v) (s\<lparr>cache := d\<rparr>)))"

definition cache_del :: "pyval \<Rightarrow> state \<Rightarrow> exn option \<times> state" where
  "cache_del k s =
     (case dict_del (cache s) k of
        Inl e \<Rightarrow> (Some e, s)
      | Inr d \<Rightarrow> (None, emit (CacheDel k) (s\<lparr>cache := d\<rparr>)))"

subsection \<open>\<^verbatim>\<open>get_mod_id_from_jar\<close> (lines 37 to 61)\<close>

text \<open>\<^verbatim>\<open>data.get("id")\<close>: only a dict has \<^verbatim>\<open>get\<close>; a missing key gives \<^verbatim>\<open>None\<close>.
  A \<open>PyDict\<close> holds the items of the dict, one for each key.\<close>

definition data_get_id :: "pyval \<Rightarrow> exn + pyval" where
  "data_get_id data =
     (case data of
        PyDict kvs \<Rightarrow> Inr (case map_of kvs ''id'' of None \<Rightarrow> PyNone | Some v \<Rightarrow> v)
      | _ \<Rightarrow> Inl AttributeError)"

text \<open>Lines 40 to 43: the candidates, sorted by their number of slashes. Python's sort
  is stable, as \<open>sort_key\<close> is.\<close>

definition candidates_of :: "zipfile \<Rightarrow> string list" where
  "candidates_of z =
     sort_key count_slash [name \<leftarrow> namelist z. endswith name ''fabric.mod.json'']"

text \<open>Lines 46 to 48: the body of the inner \<^verbatim>\<open>try\<close>.\<close>

definition read_id_utf8 :: "lib \<Rightarrow> zipfile \<Rightarrow> string \<Rightarrow> exn + pyval" where
  "read_id_utf8 l z name =
     (case zread z name of
        Inl e \<Rightarrow> Inl e
      | Inr b \<Rightarrow> (case json5_load l b of Inl e \<Rightarrow> Inl e | Inr data \<Rightarrow> data_get_id data))"

text \<open>Lines 53 to 54: the body of the \<^verbatim>\<open>try\<close> inside the first handler.\<close>

definition read_id_latin1 :: "lib \<Rightarrow> bytes \<Rightarrow> exn + pyval" where
  "read_id_latin1 l b =
     (case json5_loads l b of Inl e \<Rightarrow> Inl e | Inr data \<Rightarrow> data_get_id data)"

text \<open>Lines 56 and 58: the message about invalid JSON, after which the function falls to
  \<^verbatim>\<open>return None\<close>. A message that does not render raises where it is printed.\<close>

definition invalid_json :: "lib \<Rightarrow> string \<Rightarrow> string \<Rightarrow> state \<Rightarrow> (exn + pyval) \<times> state" where
  "invalid_json l jar_path c0 s =
     (case console_print l (InvalidJSON jar_path c0) s of
        (None, s1) \<Rightarrow> (Inr PyNone, s1)
      | (Some e, s1) \<Rightarrow> (Inl e, s1))"

text \<open>
  Lines 39 to 58, inside the outer \<^verbatim>\<open>try\<close>. An exception raised in the handler of
  \<^verbatim>\<open>UnicodeDecodeError\<close> is not caught by the handler of \<^verbatim>\<open>JSONDecodeError\<close> beside
  it, and an exception raised by either handler leaves the inner \<^verbatim>\<open>try\<close>.
\<close>

definition get_mod_id_try :: "lib \<Rightarrow> string \<Rightarrow> state \<Rightarrow> (exn + pyval) \<times> state" where
  "get_mod_id_try l jar_path s =
     (case map_of (fs s) jar_path of
        None \<Rightarrow> (Inl FileNotFoundError, s)
      | Some jar \<Rightarrow>
          (case ZipFile l jar of
             Inl e \<Rightarrow> (Inl e, s)
           | Inr z \<Rightarrow>
               (case candidates_of z of
                  [] \<Rightarrow> (Inr PyNone, s)
                | c0 # _ \<Rightarrow>
                    (case read_id_utf8 l z c0 of
                       Inr v \<Rightarrow> (Inr v, s)
                     | Inl e \<Rightarrow>
                         if e = UnicodeDecodeError then
                           (case zread z c0 of
                              Inl e1 \<Rightarrow> (Inl e1, s)
                            | Inr b \<Rightarrow>
                                (case read_id_latin1 l b of
                                   Inr v \<Rightarrow> (Inr v, s)
                                 | Inl e2 \<Rightarrow>
                                     if e2 = JSONDecodeError
                                     then invalid_json l jar_path c0 s
                                     else (Inl e2, s)))
                         else if e = JSONDecodeError
                         then invalid_json l jar_path c0 s
                         else (Inl e, s)))))"

text \<open>
  The outer handler (lines 59 and 60) catches every exception of the body and prints
  the path and the exception. The print is inside the handler: when it raises, the
  exception leaves the function.
\<close>

definition get_mod_id_from_jar :: "lib \<Rightarrow> string \<Rightarrow> state \<Rightarrow> (exn + pyval) \<times> state" where
  "get_mod_id_from_jar l jar_path s =
     (case get_mod_id_try l jar_path s of
        (Inr v, s1) \<Rightarrow> (Inr v, s1)
      | (Inl e, s1) \<Rightarrow>
          (case console_print l (FailedToRead jar_path e) s1 of
             (None, s2) \<Rightarrow> (Inr PyNone, s2)
           | (Some e', s2) \<Rightarrow> (Inl e', s2)))"

subsection \<open>\<^verbatim>\<open>prompt_for_slug\<close> (lines 63 to 67)\<close>

definition prompt_for_slug :: "lib \<Rightarrow> pyval \<Rightarrow> string \<Rightarrow> state \<Rightarrow> (exn + string option) \<times> state" where
  "prompt_for_slug l mod_id jar_name s =
     (case console_print l (UnknownModID mod_id) s of
        (Some e, s1) \<Rightarrow> (Inl e, s1)
      | (None, s1) \<Rightarrow>
          (case console_print l (FileLine jar_name) s1 of
             (Some e, s2) \<Rightarrow> (Inl e, s2)
           | (None, s2) \<Rightarrow>
               (case stdin s2 of
                  [] \<Rightarrow> (Inl EOFError, s2)
                | line # rest \<Rightarrow>
                    (let slug = strip line; s3 = emit (Input line) (s2\<lparr>stdin := rest\<rparr>)
                     in (Inr (if lower slug \<noteq> ''skip'' then Some slug else None), s3)))))"

subsection \<open>\<^verbatim>\<open>get_latest_version\<close> (lines 69 to 83)\<close>

text \<open>
  The request, the decoding of its body and the indexing of the list are all inside the
  \<^verbatim>\<open>try\<close>, whose handler prints and lets the function return \<^verbatim>\<open>None\<close>; outside it
  are only the pause and the construction of the address from a slug that is a string.
  So the function has no exceptional result.
\<close>

definition version_url :: "lib \<Rightarrow> string \<Rightarrow> string" where
  "version_url l slug = MODRINTH_API @ ''/project/'' @ quote l slug @ ''/version''"

definition version_params :: "string \<Rightarrow> (string \<times> string) list" where
  "version_params game_version =
     [(''loaders'', ''['' @ [CHR 0x22] @ LOADER @ [CHR 0x22] @ '']''),
      (''game_versions'', ''['' @ [CHR 0x22] @ game_version @ [CHR 0x22] @ '']'')]"

definition get_latest_version :: "lib \<Rightarrow> string \<Rightarrow> string \<Rightarrow> state \<Rightarrow> version option \<times> state" where
  "get_latest_version l slug game_version s =
     (let s1 = emit (HttpGet (version_url l slug)) s in
      case requests_get l (version_url l slug) (version_params game_version) of
        Inl e \<Rightarrow> (None, emit (Print (ErrorFetching slug e)) s1)
      | Inr resp \<Rightarrow>
          if status_code resp = 200 then
            (case resp_json resp of
               Inl e \<Rightarrow> (None, emit (Print (ErrorFetching slug e)) s1)
             | Inr versions \<Rightarrow>
                 (case versions of [] \<Rightarrow> (None, s1) | v # _ \<Rightarrow> (Some v, s1)))
          else (None, s1))"

subsection \<open>\<^verbatim>\<open>download_file\<close> (lines 85 to 96)\<close>

text \<open>The three results: \<^verbatim>\<open>True\<close>, \<^verbatim>\<open>False\<close> and the string \<^verbatim>\<open>"I"\<close>.\<close>

datatype download_result = DownTrue | DownFalse | DownI

text \<open>
  \<^verbatim>\<open>os.path.exists\<close> holds of a file and of a directory. The request, the opening of
  the destination and the write are inside the \<^verbatim>\<open>try\<close>: when any of them raises, the
  handler prints and the function returns \<^verbatim>\<open>False\<close>, with nothing written (a write
  that fails half way and leaves a part of the file is not modelled).
\<close>

definition os_path_exists :: "lib \<Rightarrow> string \<Rightarrow> state \<Rightarrow> bool" where
  "os_path_exists l p s = (map_of (fs s) p \<noteq> None \<or> isdir l p)"

definition download_file :: "lib \<Rightarrow> string \<Rightarrow> string \<Rightarrow> state \<Rightarrow> download_result \<times> state" where
  "download_file l u dest s =
     (if os_path_exists l dest s then (DownI, s)
      else
        (let s1 = emit (HttpGet u) s in
         case requests_get l u [] of
           Inl e \<Rightarrow> (DownFalse, emit (Print (DownloadFailedMsg e)) s1)
         | Inr resp \<Rightarrow>
             if status_code resp = 200 then
               (case write_error l dest of
                  Some e \<Rightarrow> (DownFalse, emit (Print (DownloadFailedMsg e)) s1)
                | None \<Rightarrow>
                    (DownTrue,
                     emit (FileWrite dest) (s1\<lparr>fs := AList.update dest (content resp) (fs s1)\<rparr>)))
             else (DownFalse, s1)))"

subsection \<open>\<^verbatim>\<open>validate_mod_id\<close> (lines 98 to 100)\<close>

definition validate_mod_id :: "lib \<Rightarrow> string \<Rightarrow> pyval \<Rightarrow> state \<Rightarrow> (exn + pyval \<times> bool) \<times> state" where
  "validate_mod_id l new_jar expected_id s =
     (case get_mod_id_from_jar l new_jar s of
        (Inl e, s1) \<Rightarrow> (Inl e, s1)
      | (Inr new_id, s1) \<Rightarrow> (Inr (new_id, new_id = expected_id), s1))"

subsection \<open>The loop of \<^verbatim>\<open>main\<close> (lines 122 to 165)\<close>

text \<open>Lines 159 to 161: the rekey, in the order of the source.\<close>

definition rekey :: "pyval \<Rightarrow> pyval \<Rightarrow> string \<Rightarrow> state \<Rightarrow> exn option \<times> state" where
  "rekey mod_id new_id slug s =
     (case cache_set new_id slug s of
        (Some e, s1) \<Rightarrow> (Some e, s1)
      | (None, s1) \<Rightarrow>
          (case cache_del mod_id s1 of
             (Some e, s2) \<Rightarrow> (Some e, s2)
           | (None, s2) \<Rightarrow> (None, save_cache (cache s2) s2)))"

text \<open>
  Lines 123 to 135: the identifier of the archive and its slug. After the message about
  an unreadable archive (lines 126 and 127) there is no \<^verbatim>\<open>continue\<close>: the lookup of
  line 128 comes next whatever the identifier is.
\<close>

definition main_slug :: "lib \<Rightarrow> string \<Rightarrow> state \<Rightarrow> (outcome + pyval \<times> string) \<times> state" where
  "main_slug l file s =
     (case get_mod_id_from_jar l (os_path_join MOD_FOLDER file) s of
        (Inl e, s1) \<Rightarrow> (Inl (Crashed e), s1)
      | (Inr mod_id, s1) \<Rightarrow>
          (case (if \<not> truthy mod_id
                 then (case console_print l (SkippingUnreadable file) s1 of
                         (Some e, s2) \<Rightarrow> (Some e, s2)
                       | (None, s2) \<Rightarrow> (None, emit Advance s2))
                 else (None, s1)) of
             (Some e, s2) \<Rightarrow> (Inl (Crashed e), s2)
           | (None, s2) \<Rightarrow>
               (case cache_get mod_id s2 of
                  (Inl e, s3) \<Rightarrow> (Inl (Crashed e), s3)
                | (Inr slug, s3) \<Rightarrow>
                    if py_not slug then
                      (case prompt_for_slug l mod_id file s3 of
                         (Inl e, s4) \<Rightarrow> (Inl (Crashed e), s4)
                       | (Inr slug', s4) \<Rightarrow>
                           if py_not slug' then (Inl SkippedByOperator, emit Advance s4)
                           else
                             (case cache_set mod_id (str_of slug') s4 of
                                (Some e, s5) \<Rightarrow> (Inl (Crashed e), s5)
                              | (None, s5) \<Rightarrow>
                                  (Inr (mod_id, str_of slug'), save_cache (cache s5) s5)))
                    else (Inr (mod_id, str_of slug), s3))))"

text \<open>
  Lines 136 to 155: the latest version, its first file, the download. The messages of
  lines 146, 149 and 153 hold nothing but a slug for which the registry has just
  returned a version; the slugs of the registry have no bracket in them, so these three
  messages are taken to render. The message of line 138 holds a slug that the registry
  did not answer for, which can be any text the operator typed.
\<close>

definition main_fetch :: "lib \<Rightarrow> string \<Rightarrow> string \<Rightarrow> state \<Rightarrow> (outcome + string) \<times> state" where
  "main_fetch l game_version slug s =
     (case get_latest_version l slug game_version s of
        (None, s1) \<Rightarrow>
          (case console_print l (NoCompatibleVersionFound slug) s1 of
             (Some e, s2) \<Rightarrow> (Inl (Crashed e), s2)
           | (None, s2) \<Rightarrow> (Inl NoCompatibleVersion, emit Advance s2))
      | (Some version_data, s1) \<Rightarrow>
          (case files version_data of
             [] \<Rightarrow> (Inl (Crashed IndexError), s1)
           | file_info # _ \<Rightarrow>
               (let dest_path = os_path_join MOD_FOLDER (filename file_info);
                    s2 = emit (Print (UpdatingMsg slug)) s1
                in case download_file l (url file_info) dest_path s2 of
                     (DownI, s3) \<Rightarrow>
                       (Inl AlreadyPresent, emit Advance (emit (Print (NoUpdatesNeeded slug)) s3))
                   | (DownFalse, s3) \<Rightarrow>
                       (Inl DownloadFailed, emit Advance (emit (Print (FailedToDownload slug)) s3))
                   | (DownTrue, s3) \<Rightarrow> (Inr (filename file_info), s3))))"

text \<open>
  Lines 156 to 165: validation, rekey, removal of the original archive. The change of
  identifier is printed (line 158) before the cache is touched.
\<close>

definition main_finish :: "lib \<Rightarrow> string \<Rightarrow> pyval \<Rightarrow> string \<Rightarrow> string \<Rightarrow> state \<Rightarrow> outcome \<times> state" where
  "main_finish l file mod_id slug fname s =
     (case validate_mod_id l (os_path_join MOD_FOLDER fname) mod_id s of
        (Inl e, s1) \<Rightarrow> (Crashed e, s1)
      | (Inr (new_id, valid), s1) \<Rightarrow>
          (case (if \<not> valid
                 then (case console_print l (ModIDChanged mod_id new_id) s1 of
                         (Some e, s2) \<Rightarrow> (Some e, s2)
                       | (None, s2) \<Rightarrow> rekey mod_id new_id slug s2)
                 else (None, s1)) of
             (Some e, s2) \<Rightarrow> (Crashed e, s2)
           | (None, s2) \<Rightarrow>
               (case os_remove (os_path_join MOD_FOLDER file) s2 of
                  (Some e, s3) \<Rightarrow> (Crashed e, s3)
                | (None, s3) \<Rightarrow>
                    (Updated,
                     emit Advance (s3\<lparr>updated_mods := updated_mods s3 @ [(file, fname)]\<rparr>)))))"

definition main_body :: "lib \<Rightarrow> string \<Rightarrow> string \<Rightarrow> state \<Rightarrow> outcome \<times> state" where
  "main_body l game_version file s =
     (case main_slug l file s of
        (Inl out, s1) \<Rightarrow> (out, s1)
      | (Inr (mod_id, slug), s1) \<Rightarrow>
          (case main_fetch l game_version slug s1 of
             (Inl out, s2) \<Rightarrow> (out, s2)
           | (Inr fname, s2) \<Rightarrow> main_finish l file mod_id slug fname s2))"

text \<open>The loop stops at the first uncaught exception.\<close>

fun main_loop :: "lib \<Rightarrow> string \<Rightarrow> string list \<Rightarrow> state \<Rightarrow> exn option \<times> state" where
  "main_loop l game_version [] s = (None, s)"
| "main_loop l game_version (file # rest) s =
     (case main_body l game_version file s of
        (Crashed e, s1) \<Rightarrow> (Some e, s1)
      | (_, s1) \<Rightarrow> main_loop l game_version rest s1)"

text \<open>Lines 166 to 171.\<close>

fun print_lines :: "lib \<Rightarrow> (string \<times> string) list \<Rightarrow> state \<Rightarrow> exn option \<times> state" where
  "print_lines l [] s = (None, s)"
| "print_lines l ((old, new) # rest) s =
     (case console_print l (SummaryLine old new) s of
        (Some e, s1) \<Rightarrow> (Some e, s1)
      | (None, s1) \<Rightarrow> print_lines l rest s1)"

definition print_summary :: "lib \<Rightarrow> state \<Rightarrow> exn option \<times> state" where
  "print_summary l s =
     (let s1 = emit (Print UpdateSummary) s in
      if updated_mods s1 = [] then (None, emit (Print NoModsUpdated) s1)
      else print_lines l (updated_mods s1) s1)"

definition main :: "lib \<Rightarrow> string \<Rightarrow> state \<Rightarrow> exn option \<times> state" where
  "main l game_version s0 =
     (let s = s0\<lparr>cache := load_cache s0, updated_mods := []\<rparr>;
          jars = [f \<leftarrow> os_listdir MOD_FOLDER s. endswith f ''.jar'']
      in if jars = [] then (None, emit (Print NoJarFiles) s)
         else
           (case main_loop l game_version jars s of
              (Some e, s1) \<Rightarrow> (Some e, s1)
            | (None, s1) \<Rightarrow> print_summary l s1))"

section \<open>Notions used to state the properties\<close>

text \<open>\<open>only_prints s s'\<close>: the program went from \<open>s\<close> to \<open>s'\<close> by printing only.\<close>

definition only_prints :: "state \<Rightarrow> state \<Rightarrow> bool" where
  "only_prints s s' = (\<exists>ms. s' = s\<lparr>trace := trace s @ map Print ms\<rparr>)"

text \<open>
  Replaying a trace from a starting mapping follows the mutations of the cache and checks
  their persistence. The replay is \<open>Dirty\<close> from a mutation (\<open>CacheSet\<close>, \<open>CacheDel\<close>)
  until the next \<open>CacheSaved\<close>. It is \<open>Violated\<close>, for good, as soon as anything but a
  further mutation or a save happens while it is dirty, or a save writes a mapping other
  than the current one.
\<close>

datatype pstate = Clean | Dirty | Violated

fun replay_step :: "dict \<times> pstate \<Rightarrow> event \<Rightarrow> dict \<times> pstate" where
  "replay_step (c, Violated) e = (c, Violated)"
| "replay_step (c, p) (CacheSet k v) = (AList.update k v c, Dirty)"
| "replay_step (c, p) (CacheDel k) = (AList.delete k c, Dirty)"
| "replay_step (c, p) (CacheSaved d) = (c, if d = c then Clean else Violated)"
| "replay_step (c, Dirty) e = (c, Violated)"
| "replay_step (c, Clean) e = (c, Clean)"

definition replay :: "dict \<Rightarrow> event list \<Rightarrow> dict \<times> pstate" where
  "replay c0 t = foldl replay_step (c0, Clean) t"

text \<open>
  \<open>persisted c0 s\<close>: the trace of \<open>s\<close>, replayed from \<open>c0\<close>, is clean and ends in the
  current cache, and loading the cache file gives the current cache.
\<close>

definition persisted :: "dict \<Rightarrow> state \<Rightarrow> bool" where
  "persisted c0 s = (replay c0 (trace s) = (cache s, Clean) \<and> load_cache s = cache s)"

section \<open>Concrete inputs\<close>

text \<open>
  A library for the examples. An archive whose contents are one of the letters \<open>A\<close> to
  \<open>E\<close> opens; it has three manifest candidates, and the one at top level holds the
  identifier: \<open>foo\<close> for \<open>A\<close> and \<open>B\<close>, \<open>bar\<close> for \<open>C\<close>, the text \<^verbatim>\<open>[/x]\<close> for \<open>D\<close> and a
  list for \<open>E\<close>. The contents \<open>Z\<close> are an archive with two entries of the same name,
  whose identifiers are \<open>first\<close> and \<open>second\<close>. Any other contents are not a zip file.
  The registry knows the slugs \<open>same\<close>, \<open>changed\<close>, \<open>broken\<close>, \<open>markup\<close> and \<open>listid\<close>; each
  has one version with one file, named \<open>foo-2.0.jar\<close>, whose contents are \<open>B\<close>, \<open>C\<close>, \<open>X\<close>,
  \<open>D\<close> and \<open>E\<close>; the slug \<open>nested\<close> has one whose file is named \<^verbatim>\<open>sub/foo-2.0.jar\<close>,
  in a folder that does not exist. The contents \<open>M\<close> are an archive whose only entry is
  named \<^verbatim>\<open>[/b]/fabric.mod.json\<close> and is encrypted: reading it raises
  \<^verbatim>\<open>RuntimeError\<close> with a text that quotes the name. The console raises on the two
  messages that hold a closing tag: the failure to read \<^verbatim>\<open>m.jar\<close> with that text, and
  the change of identifier to \<^verbatim>\<open>[/x]\<close>.
\<close>

definition zip0 :: "bytes \<Rightarrow> zipfile" where
  "zip0 b =
     \<lparr>entries = [(''META-INF/jars/fabric.mod.json'', Inr ''?''),
                 (''fabric.mod.json'', Inr b),
                 (''x/fabric.mod.json'', Inr ''?'')]\<rparr>"

text \<open>An archive with two candidates at the same depth.\<close>

definition tie_zip :: zipfile where
  "tie_zip =
     \<lparr>entries = [(''b/fabric.mod.json'', Inr ''B''), (''README.md'', Inr ''?''),
                 (''a/fabric.mod.json'', Inr ''C'')]\<rparr>"

text \<open>An archive with two entries of the same name.\<close>

definition dup_zip :: zipfile where
  "dup_zip = \<lparr>entries = [(''fabric.mod.json'', Inr ''F''), (''fabric.mod.json'', Inr ''G'')]\<rparr>"

text \<open>An archive whose manifest entry is encrypted and has a closing tag in its name.\<close>

definition enc_zip :: zipfile where
  "enc_zip = \<lparr>entries = [(''[/b]/fabric.mod.json'', Inl RuntimeError)]\<rparr>"

definition versions0 :: "string \<Rightarrow> string \<Rightarrow> response" where
  "versions0 u name =
     \<lparr>status_code = 200,
      resp_json = Inr [\<lparr>files = [\<lparr>url = u, filename = name\<rparr>]\<rparr>],
      content = []\<rparr>"

definition body0 :: "bytes \<Rightarrow> response" where
  "body0 b = \<lparr>status_code = 200, resp_json = Inl ValueError, content = b\<rparr>"

definition lib0 :: lib where
  "lib0 =
     \<lparr>ZipFile = (\<lambda>b. if b = ''A'' \<or> b = ''B'' \<or> b = ''C'' \<or> b = ''D'' \<or> b = ''E''
                       then Inr (zip0 b)
                       else if b = ''Z'' then Inr dup_zip
                       else if b = ''M'' then Inr enc_zip
                       else Inl BadZipFile),
      json5_load = (\<lambda>b. if b = ''A'' \<or> b = ''B'' then Inr (PyDict [(''id'', PyStr ''foo'')])
                         else if b = ''C'' then Inr (PyDict [(''id'', PyStr ''bar'')])
                         else if b = ''D'' then Inr (PyDict [(''id'', PyStr ''[/x]'')])
                         else if b = ''E'' then Inr (PyDict [(''id'', PyList [PyStr ''x''])])
                         else if b = ''F'' then Inr (PyDict [(''id'', PyStr ''first'')])
                         else if b = ''G'' then Inr (PyDict [(''id'', PyStr ''second'')])
                         else Inl ValueError),
      json5_loads = (\<lambda>t. Inl ValueError),
      requests_get = (\<lambda>u ps.
         if u = MODRINTH_API @ ''/project/same/version'' then Inr (versions0 ''uB'' ''foo-2.0.jar'')
         else if u = MODRINTH_API @ ''/project/changed/version''
           then Inr (versions0 ''uC'' ''foo-2.0.jar'')
         else if u = MODRINTH_API @ ''/project/broken/version''
           then Inr (versions0 ''uX'' ''foo-2.0.jar'')
         else if u = MODRINTH_API @ ''/project/markup/version''
           then Inr (versions0 ''uD'' ''foo-2.0.jar'')
         else if u = MODRINTH_API @ ''/project/listid/version''
           then Inr (versions0 ''uE'' ''foo-2.0.jar'')
         else if u = MODRINTH_API @ ''/project/nested/version''
           then Inr (versions0 ''uB'' ''sub/foo-2.0.jar'')
         else if u = ''uB'' then Inr (body0 ''B'')
         else if u = ''uC'' then Inr (body0 ''C'')
         else if u = ''uD'' then Inr (body0 ''D'')
         else if u = ''uE'' then Inr (body0 ''E'')
         else if u = ''uX'' then Inr (body0 ''X'')
         else Inl ConnectionError),
      quote = (\<lambda>s. s),
      rich_print = (\<lambda>m.
         if m = FailedToRead ''./.minecraft/mods/m.jar'' RuntimeError
            \<or> m = ModIDChanged (PyStr ''foo'') (PyStr ''[/x]'')
         then Some MarkupError else None),
      write_error = (\<lambda>p. if p = ''./.minecraft/mods/sub/foo-2.0.jar''
                          then Some FileNotFoundError else None),
      isdir = (\<lambda>p. False)\<rparr>"

text \<open>A state with the given files, cache file, input lines and cache, and nothing
  done yet.\<close>

definition state0 :: "(string \<times> bytes) list \<Rightarrow> dict option \<Rightarrow> string list \<Rightarrow> dict \<Rightarrow> state" where
  "state0 fs0 st0 inp c = \<lparr>fs = fs0, store = st0, stdin = inp, cache = c, updated_mods = [], trace = []\<rparr>"

text \<open>The mods folder holds one readable archive (identifier \<open>foo\<close>); the cache file does
  not exist; the operator will type the given line.\<close>

definition foo_state :: "string \<Rightarrow> state" where
  "foo_state line = state0 [(''./.minecraft/mods/foo.jar'', ''A'')] None [line] []"

text \<open>The mods folder holds one unreadable archive.\<close>

definition bad_state :: "string \<Rightarrow> state" where
  "bad_state line = state0 [(''./.minecraft/mods/bad.jar'', ''X'')] None [line] []"

text \<open>The mods folder holds the archive with the encrypted entry.\<close>

definition markup_state :: state where
  "markup_state = state0 [(''./.minecraft/mods/m.jar'', ''M'')] None [] []"

text \<open>The mods folder holds the archive with two entries of the same name.\<close>

definition dup_state :: state where
  "dup_state = state0 [(''./.minecraft/mods/dup.jar'', ''Z'')] None [] []"

text \<open>The folder and the cache file as a first run with the slug \<open>same\<close> leaves them.\<close>

definition second_run_state :: state where
  "second_run_state =
     state0 [(''./.minecraft/mods/foo-2.0.jar'', ''B'')] (Some [(PyStr ''foo'', ''same'')]) []
       [(PyStr ''foo'', ''same'')]"

section \<open>Auxiliary facts\<close>

subsection \<open>Events and fields\<close>

lemma emit_fields [simp]:
  "fs (emit e s) = fs s" "store (emit e s) = store s" "stdin (emit e s) = stdin s"
  "cache (emit e s) = cache s" "updated_mods (emit e s) = updated_mods s"
  "trace (emit e s) = trace s @ [e]"
  by (simp_all add: emit_def)

lemma load_cache_emit [simp]: "load_cache (emit e s) = load_cache s"
  by (simp add: load_cache_def)

lemma only_prints_refl: "only_prints s s"
  unfolding only_prints_def by (rule exI [of _ "[]"]) simp

lemma only_prints_emit: "only_prints s s' \<Longrightarrow> only_prints s (emit (Print m) s')"
  unfolding only_prints_def emit_def
  by (erule exE, rule_tac x = "ms @ [m]" in exI) simp

lemma only_prints_console: "only_prints s s' \<Longrightarrow> only_prints s (snd (console_print l m s'))"
  unfolding console_print_def by (auto split: option.splits intro: only_prints_emit)

lemma console_print_None:
  "rich_print l m = None \<Longrightarrow> console_print l m s = (None, emit (Print m) s)"
  by (simp add: console_print_def)

lemma console_print_cases:
  "console_print l m s = (None, emit (Print m) s) \<or> (\<exists>e. console_print l m s = (Some e, s))"
  by (cases "rich_print l m") (simp_all add: console_print_def)

lemma only_prints_fields:
  assumes "only_prints s s'"
  shows "fs s' = fs s" "store s' = store s" "stdin s' = stdin s" "cache s' = cache s"
    "updated_mods s' = updated_mods s" "load_cache s' = load_cache s"
  using assms by (auto simp: only_prints_def load_cache_def)

lemma replay_append [simp]: "replay c0 (t @ es) = foldl replay_step (replay c0 t) es"
  by (simp add: replay_def)

lemma replay_prints [simp]:
  "foldl replay_step (c, Clean) (map Print ms) = (c, Clean)"
  by (induction ms) simp_all

lemma only_prints_persisted:
  "only_prints s s' \<Longrightarrow> persisted c0 s \<Longrightarrow> persisted c0 s'"
  by (auto simp: only_prints_def persisted_def load_cache_def)

lemma console_print_persisted:
  "persisted c0 s \<Longrightarrow> persisted c0 (snd (console_print l m s))"
  using only_prints_persisted [OF only_prints_console [OF only_prints_refl]] .

subsection \<open>Extraction\<close>

lemma get_mod_id_try_prints: "only_prints s (snd (get_mod_id_try l p s))"
  unfolding get_mod_id_try_def invalid_json_def console_print_def
  by (auto split: option.splits sum.splits list.splits
        intro!: only_prints_refl only_prints_emit)

lemma get_mod_id_from_jar_prints: "only_prints s (snd (get_mod_id_from_jar l p s))"
  unfolding get_mod_id_from_jar_def console_print_def
  using get_mod_id_try_prints [of s l p]
  by (auto split: prod.splits sum.splits option.splits intro!: only_prints_emit)

lemma get_mod_id_from_jar_cases:
  obtains r s1 where "get_mod_id_from_jar l p s = (r, s1)" "only_prints s s1"
  using get_mod_id_from_jar_prints [of s l p]
  by (cases "get_mod_id_from_jar l p s") auto

lemma get_mod_id_from_jar_Inr_cases:
  assumes "fst (get_mod_id_from_jar l p s) = Inr v"
  obtains s1 where "get_mod_id_from_jar l p s = (Inr v, s1)" "only_prints s s1"
  using assms get_mod_id_from_jar_prints [of s l p]
  by (cases "get_mod_id_from_jar l p s") auto

text \<open>The result does not depend on the trace or the variables, only on the files.\<close>

lemma get_mod_id_try_fs:
  "fs s' = fs s \<Longrightarrow> fst (get_mod_id_try l p s') = fst (get_mod_id_try l p s)"
  unfolding get_mod_id_try_def invalid_json_def console_print_def
  by (auto split: option.splits sum.splits list.splits)

lemma get_mod_id_from_jar_fs:
  "fs s' = fs s \<Longrightarrow> fst (get_mod_id_from_jar l p s') = fst (get_mod_id_from_jar l p s)"
  using get_mod_id_try_fs [of s' s l p]
  unfolding get_mod_id_from_jar_def console_print_def
  by (auto split: prod.splits sum.splits option.splits)

subsection \<open>The dict\<close>

lemma keys_update: "fst ` set (AList.update k v d) = insert k (fst ` set d)"
  by (induction d) auto

lemma map_of_update [simp]: "map_of (AList.update k v d) k' = (if k' = k then Some v else map_of d k')"
  by (simp add: update_conv')

lemma map_of_delete [simp]: "map_of (AList.delete k d) k' = (if k' = k then None else map_of d k')"
  by (simp add: delete_conv')

lemma in_update_key: "(a, b) \<in> set (AList.update k v d) \<Longrightarrow> a \<noteq> k \<Longrightarrow> a \<in> fst ` set d"
  using keys_update [of k v d] by (metis fst_conv image_eqI insertE)

lemma keys_delete: "fst ` set (AList.delete k d) = fst ` set d - {k}"
  by (induction d) auto

lemma py_not_str_of: "\<not> py_not x \<Longrightarrow> x = Some (str_of x) \<and> str_of x \<noteq> []"
  by (cases x) auto

subsection \<open>Lines 123 to 135\<close>

lemma main_slug_Inr:
  assumes "main_slug l file s = (Inr (mod_id, slug), s1)"
  shows "fst (get_mod_id_from_jar l (os_path_join MOD_FOLDER file) s) = Inr mod_id"
    and "hashable mod_id" and "map_of (cache s1) mod_id = Some slug" and "slug \<noteq> []"
    and "fs s1 = fs s" and "updated_mods s1 = updated_mods s"
    and "fst ` set (cache s1) \<subseteq> insert mod_id (fst ` set (cache s))"
    and "\<not> py_not (map_of (cache s) mod_id) \<Longrightarrow> cache s1 = cache s \<and> store s1 = store s"
proof -
  obtain r s0 where g: "get_mod_id_from_jar l (os_path_join MOD_FOLDER file) s = (r, s0)"
    and op: "only_prints s s0"
    by (rule get_mod_id_from_jar_cases)
  note f = only_prints_fields [OF op]
  have *: "r = Inr mod_id \<and> hashable mod_id \<and> map_of (cache s1) mod_id = Some slug \<and> slug \<noteq> []
     \<and> fs s1 = fs s \<and> updated_mods s1 = updated_mods s
     \<and> fst ` set (cache s1) \<subseteq> insert mod_id (fst ` set (cache s))
     \<and> (\<not> py_not (map_of (cache s) mod_id) \<longrightarrow> cache s1 = cache s \<and> store s1 = store s)"
    using assms f
    unfolding main_slug_def g cache_get_def dict_get_def prompt_for_slug_def cache_set_def
      dict_set_def save_cache_def console_print_def
    by (cases r)
      (auto simp: Let_def dest: in_update_key py_not_str_of
         split: if_splits list.splits option.splits)
  show "fst (get_mod_id_from_jar l (os_path_join MOD_FOLDER file) s) = Inr mod_id"
    using * g by simp
  show "hashable mod_id" "map_of (cache s1) mod_id = Some slug" "slug \<noteq> []"
    "fs s1 = fs s" "updated_mods s1 = updated_mods s"
    "fst ` set (cache s1) \<subseteq> insert mod_id (fst ` set (cache s))"
    "\<not> py_not (map_of (cache s) mod_id) \<Longrightarrow> cache s1 = cache s \<and> store s1 = store s"
    using * by simp_all
qed




lemma main_slug_persisted:
  assumes "persisted c0 s"
  shows "persisted c0 (snd (main_slug l file s))"
proof -
  obtain r s0 where g: "get_mod_id_from_jar l (os_path_join MOD_FOLDER file) s = (r, s0)"
    and op: "only_prints s s0"
    by (rule get_mod_id_from_jar_cases)
  have "persisted c0 s0"
    using only_prints_persisted [OF op assms] .
  then show ?thesis
    unfolding main_slug_def g cache_get_def dict_get_def prompt_for_slug_def cache_set_def
      dict_set_def save_cache_def persisted_def console_print_def
    by (cases r)
      (auto simp: Let_def load_cache_def split: if_splits list.splits option.splits)
qed


subsection \<open>Lines 136 to 155\<close>


lemma get_latest_version_fields:
  assumes "get_latest_version l slug gv s = (r, s1)"
  shows "fs s1 = fs s" "cache s1 = cache s" "store s1 = store s"
    "updated_mods s1 = updated_mods s" "stdin s1 = stdin s"
  using assms unfolding get_latest_version_def
  by (auto simp: Let_def split: sum.splits if_splits list.splits)


lemma get_latest_version_persisted:
  "persisted c0 s \<Longrightarrow> persisted c0 (snd (get_latest_version l slug gv s))"
  unfolding get_latest_version_def persisted_def
  by (auto simp: Let_def load_cache_def split: sum.splits if_splits list.splits)


lemma download_file_persisted:
  "persisted c0 s \<Longrightarrow> persisted c0 (snd (download_file l u dest s))"
  unfolding download_file_def persisted_def
  by (auto simp: Let_def load_cache_def split: sum.splits if_splits option.splits)


lemma download_file_fields:
  assumes "download_file l u dest s = (r, s1)"
  shows "cache s1 = cache s" "store s1 = store s" "updated_mods s1 = updated_mods s"
    "stdin s1 = stdin s" "r \<noteq> DownTrue \<Longrightarrow> fs s1 = fs s"
    "r = DownTrue \<Longrightarrow> map_of (fs s) dest = None \<and> (\<exists>c. fs s1 = AList.update dest c (fs s))"
  using assms unfolding download_file_def os_path_exists_def
  by (auto simp: Let_def split: sum.splits if_splits option.splits)


lemma main_fetch_Inr:
  assumes "main_fetch l gv slug s = (Inr fname, s2)"
  shows "cache s2 = cache s" and "store s2 = store s" and "updated_mods s2 = updated_mods s"
    and "map_of (fs s) (os_path_join MOD_FOLDER fname) = None"
    and "\<exists>c. fs s2 = AList.update (os_path_join MOD_FOLDER fname) c (fs s)"
proof -
  obtain r s1 where g: "get_latest_version l slug gv s = (r, s1)"
    by (cases "get_latest_version l slug gv s")
  note f = get_latest_version_fields [OF g]
  from assms g obtain vd where r: "r = Some vd"
    unfolding main_fetch_def console_print_def by (cases r) (auto split: option.splits)
  from assms g r obtain fi fis where fi: "files vd = fi # fis"
    unfolding main_fetch_def by (cases "files vd") auto
  let ?dest = "os_path_join MOD_FOLDER (filename fi)"
  obtain d s3 where d: "download_file l (url fi) ?dest (emit (Print (UpdatingMsg slug)) s1) = (d, s3)"
    by (cases "download_file l (url fi) ?dest (emit (Print (UpdatingMsg slug)) s1)")
  from assms g r fi d have dt: "d = DownTrue" and fn: "fname = filename fi" and s2: "s2 = s3"
    unfolding main_fetch_def by (cases d; simp add: Let_def)+
  note df = download_file_fields [OF d]
  show "cache s2 = cache s" "store s2 = store s" "updated_mods s2 = updated_mods s"
    using df f s2 by simp_all
  show "map_of (fs s) (os_path_join MOD_FOLDER fname) = None"
    using df(6) [OF dt] f fn by simp
  show "\<exists>c. fs s2 = AList.update (os_path_join MOD_FOLDER fname) c (fs s)"
    using df(6) [OF dt] f fn s2 by simp
qed


lemma main_fetch_persisted:
  assumes "persisted c0 s"
  shows "persisted c0 (snd (main_fetch l gv slug s))"
proof -
  obtain r s1 where g: "get_latest_version l slug gv s = (r, s1)"
    by (cases "get_latest_version l slug gv s")
  have p1: "persisted c0 s1"
    using get_latest_version_persisted [OF assms, of l slug gv] g by simp
  show ?thesis
  proof (cases r)
    case None
    have "persisted c0 (snd (console_print l (NoCompatibleVersionFound slug) s1))"
      by (rule console_print_persisted [OF p1])
    then show ?thesis using None g unfolding main_fetch_def persisted_def
      by (auto simp: load_cache_def split: prod.splits option.splits)
  next
    case (Some vd)
    show ?thesis
    proof (cases "files vd")
      case Nil
      then show ?thesis using p1 g Some unfolding main_fetch_def by simp
    next
      case (Cons fi fis)
      let ?s2 = "emit (Print (UpdatingMsg slug)) s1"
      let ?dest = "os_path_join MOD_FOLDER (filename fi)"
      have p2: "persisted c0 ?s2"
        using p1 unfolding persisted_def by (simp add: load_cache_def)
      obtain d s3 where d: "download_file l (url fi) ?dest ?s2 = (d, s3)"
        by (cases "download_file l (url fi) ?dest ?s2")
      have p3: "persisted c0 s3"
        using download_file_persisted [OF p2, of l "url fi" ?dest] d by simp
      show ?thesis
        using p3 g Some Cons d unfolding main_fetch_def persisted_def
        by (cases d) (simp_all add: Let_def load_cache_def)
    qed
  qed
qed


subsection \<open>Lines 156 to 165\<close>


lemma rekey_present:
  assumes "map_of (cache s) old = Some slug0" and "hashable old" and "hashable new" and "new \<noteq> old"
  shows "fst (rekey old new slug s) = None"
    and "map_of (cache (snd (rekey old new slug s))) old = None"
    and "map_of (cache (snd (rekey old new slug s))) new = Some slug"
    and "k \<noteq> old \<Longrightarrow> k \<noteq> new \<Longrightarrow>
         map_of (cache (snd (rekey old new slug s))) k = map_of (cache s) k"
    and "store (snd (rekey old new slug s)) = Some (cache (snd (rekey old new slug s)))"
    and "fs (snd (rekey old new slug s)) = fs s"
    and "updated_mods (snd (rekey old new slug s)) = updated_mods s"
    and "trace (snd (rekey old new slug s)) =
           trace s @ [CacheSet new slug, CacheDel old,
             CacheSaved (AList.delete old (AList.update new slug (cache s)))]"
    and "cache (snd (rekey old new slug s)) = AList.delete old (AList.update new slug (cache s))"
  using assms
  unfolding rekey_def cache_set_def cache_del_def dict_set_def dict_del_def save_cache_def
  by (simp_all add: prod.case_eq_if)


lemma rekey_persisted:
  "persisted c0 s \<Longrightarrow> map_of (cache s) old = Some slug0 \<Longrightarrow> hashable old \<Longrightarrow>
   persisted c0 (snd (rekey old new slug s))"
  unfolding rekey_def cache_set_def cache_del_def dict_set_def dict_del_def save_cache_def
    persisted_def
  by (auto simp: load_cache_def)


lemma os_remove_persisted:
  "persisted c0 s \<Longrightarrow> persisted c0 (snd (os_remove p s))"
  unfolding os_remove_def persisted_def by (auto simp: load_cache_def)


lemma main_finish_persisted:
  assumes "persisted c0 s" and mo: "map_of (cache s) mod_id = Some slug0" and ha: "hashable mod_id"
  shows "persisted c0 (snd (main_finish l file mod_id slug fname s))"
proof -
  let ?dest = "os_path_join MOD_FOLDER fname"
  obtain r s1 where g: "get_mod_id_from_jar l ?dest s = (r, s1)"
    and op: "only_prints s s1"
    by (rule get_mod_id_from_jar_cases)
  have p1: "persisted c0 s1"
    using only_prints_persisted [OF op assms(1)] .
  show ?thesis
  proof (cases r)
    case (Inl e)
    then show ?thesis
      using p1 unfolding main_finish_def validate_mod_id_def g by simp
  next
    case (Inr v)
    show ?thesis
    proof (cases "v = mod_id")
      case True
      then show ?thesis
        using p1 Inr unfolding main_finish_def validate_mod_id_def g os_remove_def persisted_def
        by (auto simp: load_cache_def)
    next
      case False
      show ?thesis
      proof (cases "rich_print l (ModIDChanged mod_id v)")
        case (Some e)
        then show ?thesis
          using p1 Inr False
          unfolding main_finish_def validate_mod_id_def g console_print_def by simp
      next
        case None
        let ?s1' = "emit (Print (ModIDChanged mod_id v)) s1"
        have p1': "persisted c0 ?s1'"
          using p1 unfolding persisted_def by (simp add: load_cache_def)
        have mo': "map_of (cache ?s1') mod_id = Some slug0"
          using mo only_prints_fields [OF op] by simp
        obtain r2 s2 where rk: "rekey mod_id v slug ?s1' = (r2, s2)"
          by (cases "rekey mod_id v slug ?s1'")
        have p2: "persisted c0 s2"
          using rekey_persisted [OF p1' mo' ha, of v slug] rk by simp
        show ?thesis
          using p2 False rk Inr None
          unfolding main_finish_def validate_mod_id_def g os_remove_def persisted_def
            console_print_def
          by (auto simp: load_cache_def split: option.splits)
      qed
    qed
  qed
qed


lemma main_finish_same:
  assumes g: "fst (get_mod_id_from_jar l (os_path_join MOD_FOLDER fname) s) = Inr mod_id"
    and ex: "map_of (fs s) (os_path_join MOD_FOLDER file) \<noteq> None"
  shows "fst (main_finish l file mod_id slug fname s) = Updated"
    and "cache (snd (main_finish l file mod_id slug fname s)) = cache s"
    and "store (snd (main_finish l file mod_id slug fname s)) = store s"
    and "fs (snd (main_finish l file mod_id slug fname s))
           = AList.delete (os_path_join MOD_FOLDER file) (fs s)"
    and "updated_mods (snd (main_finish l file mod_id slug fname s))
           = updated_mods s @ [(file, fname)]"
proof -
  obtain s1 where g': "get_mod_id_from_jar l (os_path_join MOD_FOLDER fname) s = (Inr mod_id, s1)"
    and op: "only_prints s s1"
    by (rule get_mod_id_from_jar_Inr_cases [OF g])
  note f = only_prints_fields [OF op]
  have r: "main_finish l file mod_id slug fname s =
      (Updated, emit Advance
         ((emit (FileRemove (os_path_join MOD_FOLDER file))
            (s1\<lparr>fs := AList.delete (os_path_join MOD_FOLDER file) (fs s1)\<rparr>))
          \<lparr>updated_mods := updated_mods s1 @ [(file, fname)]\<rparr>))"
    using ex f unfolding main_finish_def validate_mod_id_def g' os_remove_def by simp
  show "fst (main_finish l file mod_id slug fname s) = Updated"
    "cache (snd (main_finish l file mod_id slug fname s)) = cache s"
    "store (snd (main_finish l file mod_id slug fname s)) = store s"
    "fs (snd (main_finish l file mod_id slug fname s))
       = AList.delete (os_path_join MOD_FOLDER file) (fs s)"
    "updated_mods (snd (main_finish l file mod_id slug fname s))
       = updated_mods s @ [(file, fname)]"
    unfolding r using f by simp_all
qed

lemma main_finish_changed:
  assumes g: "fst (get_mod_id_from_jar l (os_path_join MOD_FOLDER fname) s) = Inr new_id"
    and diff: "new_id \<noteq> mod_id" and hn: "hashable new_id" and ho: "hashable mod_id"
    and mo: "map_of (cache s) mod_id = Some slug0"
    and ex: "map_of (fs s) (os_path_join MOD_FOLDER file) \<noteq> None"
    and rp: "rich_print l (ModIDChanged mod_id new_id) = None"
  shows "fst (main_finish l file mod_id slug fname s) = Updated"
    and "cache (snd (main_finish l file mod_id slug fname s))
           = AList.delete mod_id (AList.update new_id slug (cache s))"
    and "store (snd (main_finish l file mod_id slug fname s))
           = Some (cache (snd (main_finish l file mod_id slug fname s)))"
    and "fs (snd (main_finish l file mod_id slug fname s))
           = AList.delete (os_path_join MOD_FOLDER file) (fs s)"
    and "updated_mods (snd (main_finish l file mod_id slug fname s))
           = updated_mods s @ [(file, fname)]"
    and "Print (ModIDChanged mod_id new_id)
           \<in> set (trace (snd (main_finish l file mod_id slug fname s)))"
proof -
  obtain s1 where g': "get_mod_id_from_jar l (os_path_join MOD_FOLDER fname) s = (Inr new_id, s1)"
    and op: "only_prints s s1"
    by (rule get_mod_id_from_jar_Inr_cases [OF g])
  note f = only_prints_fields [OF op]
  let ?s1' = "emit (Print (ModIDChanged mod_id new_id)) s1"
  have mo': "map_of (cache ?s1') mod_id = Some slug0" using mo f by simp
  note rk = rekey_present [OF mo' ho hn diff, where slug = slug]
  obtain r s2 where rs: "rekey mod_id new_id slug ?s1' = (r, s2)"
    by (cases "rekey mod_id new_id slug ?s1'")
  have r: "r = None" using rk(1) rs by simp
  have s2: "cache s2 = AList.delete mod_id (AList.update new_id slug (cache s))"
    "store s2 = Some (cache s2)" "fs s2 = fs s" "updated_mods s2 = updated_mods s"
    "Print (ModIDChanged mod_id new_id) \<in> set (trace s2)"
    using rk(5,6,7,8,9) rs f by simp_all
  have res: "main_finish l file mod_id slug fname s =
      (Updated, emit Advance
         ((emit (FileRemove (os_path_join MOD_FOLDER file))
            (s2\<lparr>fs := AList.delete (os_path_join MOD_FOLDER file) (fs s2)\<rparr>))
          \<lparr>updated_mods := updated_mods s2 @ [(file, fname)]\<rparr>))"
    using ex s2(3) diff r
    unfolding main_finish_def validate_mod_id_def g' os_remove_def
    by (simp add: rs console_print_None [OF rp])
  show "fst (main_finish l file mod_id slug fname s) = Updated"
    "cache (snd (main_finish l file mod_id slug fname s))
       = AList.delete mod_id (AList.update new_id slug (cache s))"
    "store (snd (main_finish l file mod_id slug fname s))
       = Some (cache (snd (main_finish l file mod_id slug fname s)))"
    "fs (snd (main_finish l file mod_id slug fname s))
       = AList.delete (os_path_join MOD_FOLDER file) (fs s)"
    "updated_mods (snd (main_finish l file mod_id slug fname s))
       = updated_mods s @ [(file, fname)]"
    "Print (ModIDChanged mod_id new_id)
       \<in> set (trace (snd (main_finish l file mod_id slug fname s)))"
    unfolding res using s2 by simp_all
qed

lemma main_body_finish:
  assumes "main_slug l file s0 = (Inr (mod_id, slug), s1)"
    and "main_fetch l gv slug s1 = (Inr fname, s2)"
  shows "main_body l gv file s0 = main_finish l file mod_id slug fname s2"
  using assms unfolding main_body_def by simp

lemma main_body_persisted:
  assumes "persisted c0 s"
  shows "persisted c0 (snd (main_body l gv file s))"
proof -
  have p1: "persisted c0 (snd (main_slug l file s))"
    by (rule main_slug_persisted [OF assms])
  show ?thesis
  proof (cases "main_slug l file s")
    case (Pair r s1)
    show ?thesis
    proof (cases r)
      case (Inl out)
      then show ?thesis using p1 Pair unfolding main_body_def by simp
    next
      case (Inr ms)
      obtain mod_id slug where ms: "ms = (mod_id, slug)" by (cases ms)
      have p2: "persisted c0 (snd (main_fetch l gv slug s1))"
        using main_fetch_persisted p1 Pair by simp
      show ?thesis
      proof (cases "main_fetch l gv slug s1")
        case (Pair r2 s2)
        note P2 = this
        show ?thesis
        proof (cases r2)
          case (Inl out)
          then show ?thesis
            using p2 P2 \<open>main_slug l file s = (r, s1)\<close> Inr ms unfolding main_body_def by simp
        next
          case (Inr fname)
          have "map_of (cache s2) mod_id = Some slug" "hashable mod_id"
            using main_slug_Inr(2,3) [of l "file" s mod_id slug s1]
              main_fetch_Inr(1) [of l gv slug s1 fname s2]
              P2 \<open>main_slug l file s = (r, s1)\<close> \<open>r = Inr ms\<close> ms Inr by simp_all
          then have "persisted c0 (snd (main_finish l file mod_id slug fname s2))"
            using main_finish_persisted [of c0 s2 mod_id slug l "file" slug fname] p2 P2 by simp
          then show ?thesis
            using P2 \<open>main_slug l file s = (r, s1)\<close> \<open>r = Inr ms\<close> ms Inr
            unfolding main_body_def by simp
        qed
      qed
    qed
  qed
qed


lemma main_loop_persisted:
  "persisted c0 s \<Longrightarrow> persisted c0 (snd (main_loop l gv jars s))"
proof (induction jars arbitrary: s)
  case Nil
  then show ?case by simp
next
  case (Cons jar rest)
  have p: "persisted c0 (snd (main_body l gv jar s))"
    by (rule main_body_persisted [OF Cons.prems])
  obtain out s1 where b: "main_body l gv jar s = (out, s1)"
    by (cases "main_body l gv jar s")
  show ?case
    using p b Cons.IH [of s1] by (cases out) simp_all
qed


lemma print_lines_persisted:
  "persisted c0 s \<Longrightarrow> persisted c0 (snd (print_lines l xs s))"
proof (induction xs arbitrary: s)
  case Nil
  then show ?case by simp
next
  case (Cons x xs)
  obtain old new where x: "x = (old, new)" by (cases x)
  have p: "persisted c0 (snd (console_print l (SummaryLine old new) s))"
    by (rule console_print_persisted [OF Cons.prems])
  show ?case
    using p Cons.IH [of "snd (console_print l (SummaryLine old new) s)"]
    unfolding x by (auto split: prod.splits option.splits)
qed

lemma print_summary_persisted:
  "persisted c0 s \<Longrightarrow> persisted c0 (snd (print_summary l s))"
proof -
  assume p: "persisted c0 s"
  have p1: "persisted c0 (emit (Print UpdateSummary) s)"
    using p by (simp add: persisted_def load_cache_def)
  have p2: "persisted c0 (emit (Print NoModsUpdated) (emit (Print UpdateSummary) s))"
    using p1 by (simp add: persisted_def load_cache_def)
  show ?thesis
    unfolding print_summary_def Let_def
    using p2 print_lines_persisted [OF p1] by simp
qed

section \<open>The properties\<close>

lemma hd_insort_key:
  "hd (insort_key f x ys) = (if ys = [] then x else if f x \<le> f (hd ys) then x else hd ys)"
  by (cases ys) auto

lemma sort_key_first_min:
  "cs \<noteq> [] \<Longrightarrow>
   \<exists>pre c post. cs = pre @ c # post \<and> hd (sort_key f cs) = c \<and>
     (\<forall>d\<in>set pre. f c < f d) \<and> (\<forall>d\<in>set post. f c \<le> f d)"
proof (induction cs)
  case Nil
  then show ?case by simp
next
  case (Cons x xs)
  show ?case
  proof (cases "xs = []")
    case True
    then show ?thesis by (intro exI [of _ "[]"] exI [of _ x]) simp
  next
    case False
    from Cons.IH [OF False] obtain pre c post where
      xs: "xs = pre @ c # post" and h: "hd (sort_key f xs) = c"
      and pre: "\<forall>d\<in>set pre. f c < f d" and post: "\<forall>d\<in>set post. f c \<le> f d"
      by blast
    have ne: "sort_key f xs \<noteq> []" using False by (metis length_sort length_0_conv)
    show ?thesis
    proof (cases "f x \<le> f c")
      case True
      have "hd (sort_key f (x # xs)) = x"
        using True h ne by (simp add: hd_insort_key)
      moreover have "\<forall>d\<in>set xs. f x \<le> f d"
        using True pre post xs by (auto intro: order_trans less_imp_le)
      ultimately show ?thesis
        by (intro exI [of _ "[]"] exI [of _ x] exI [of _ xs]) simp
    next
      case False
      have "hd (sort_key f (x # xs)) = c"
        using False h ne by (simp add: hd_insort_key)
      moreover have "\<forall>d\<in>set (x # pre). f c < f d"
        using False pre by auto
      ultimately show ?thesis
        using xs post
        by (intro exI [of _ "x # pre"] exI [of _ c] exI [of _ post]) simp
    qed
  qed
qed

lemma last_entry_read:
  assumes "c \<in> set (namelist z)"
  shows "\<exists>before r after. entries z = before @ (c, r) # after \<and>
           c \<notin> fst ` set after \<and> zread z c = r"
proof -
  have "\<exists>x\<in>set (entries z). fst x = c"
    using assms by (auto simp: namelist_def)
  from split_list_last_prop [OF this] obtain before x after where
    e: "entries z = before @ x # after" and x: "fst x = c"
    and a: "\<forall>y\<in>set after. fst y \<noteq> c"
    by blast
  have fa: "[e \<leftarrow> after. fst e = c] = []"
    using a by (auto simp: filter_empty_conv)
  have "[e \<leftarrow> entries z. fst e = c] = [e \<leftarrow> before. fst e = c] @ [x]"
    using e x fa by simp
  then have "zread z c = snd x"
    unfolding zread_def by (cases "[e \<leftarrow> before. fst e = c]") simp_all
  moreover have "entries z = before @ (c, snd x) # after"
    using e x by (cases x) simp
  moreover have "c \<notin> fst ` set after"
    using a by auto
  ultimately show ?thesis by blast
qed

lemma get_mod_id_try_value:
  assumes "fst (get_mod_id_try l p s) = Inr v" and "v \<noteq> PyNone"
  shows "\<exists>jar z c0 rest b kvs.
           map_of (fs s) p = Some jar \<and> ZipFile l jar = Inr z \<and>
           candidates_of z = c0 # rest \<and> zread z c0 = Inr b \<and>
           (json5_load l b = Inr (PyDict kvs) \<or>
            json5_load l b = Inl UnicodeDecodeError \<and> json5_loads l b = Inr (PyDict kvs)) \<and>
           map_of kvs ''id'' = Some v"
  using assms
  unfolding get_mod_id_try_def read_id_utf8_def read_id_latin1_def data_get_id_def
    invalid_json_def console_print_def
  by (auto split: option.splits sum.splits list.splits if_splits pyval.splits)

lemma get_mod_id_from_jar_value:
  assumes "fst (get_mod_id_from_jar l p s) = Inr v" and "v \<noteq> PyNone"
  shows "fst (get_mod_id_try l p s) = Inr v"
  using assms unfolding get_mod_id_from_jar_def console_print_def
  by (auto split: prod.splits sum.splits option.splits)

text \<open>
  When the message of line 60 renders for the path, extraction returns a value and
  raises nothing, whatever the libraries do and whatever the file holds. The value is
  other than \<^verbatim>\<open>None\<close> only when the file exists, opens as a zip file, has a manifest
  candidate, the first candidate can be read, its contents parse to a dict (directly,
  or after a \<^verbatim>\<open>UnicodeDecodeError\<close> through the Latin-1 text) and the dict has the key
  \<^verbatim>\<open>id\<close>.
\<close>

lemma get_mod_id_from_jar_when_rendered:
  assumes "\<forall>e. rich_print l (FailedToRead p e) = None"
  shows "\<exists>v. fst (get_mod_id_from_jar l p s) = Inr v \<and>
     (v \<noteq> PyNone \<longrightarrow>
        (\<exists>jar z c0 rest b kvs.
           map_of (fs s) p = Some jar \<and> ZipFile l jar = Inr z \<and>
           candidates_of z = c0 # rest \<and> zread z c0 = Inr b \<and>
           (json5_load l b = Inr (PyDict kvs) \<or>
            json5_load l b = Inl UnicodeDecodeError \<and> json5_loads l b = Inr (PyDict kvs)) \<and>
           map_of kvs ''id'' = Some v))"
proof -
  have "\<exists>v. fst (get_mod_id_from_jar l p s) = Inr v"
    by (cases "get_mod_id_try l p s")
      (auto simp: get_mod_id_from_jar_def console_print_def assms split: sum.splits)
  then obtain v where v: "fst (get_mod_id_from_jar l p s) = Inr v" ..
  show ?thesis
    using v get_mod_id_try_value [OF get_mod_id_from_jar_value [OF v]] by blast
qed

text \<open>
  Claim C6 is not what the program does. The archive \<^verbatim>\<open>m.jar\<close> has one manifest
  candidate, which is encrypted; reading it raises \<^verbatim>\<open>RuntimeError\<close>, and the text of
  that exception quotes the name of the entry, \<^verbatim>\<open>[/b]/fabric.mod.json\<close>. The outer
  handler catches the exception and prints it (line 60) through the console, which takes
  \<^verbatim>\<open>[/b]\<close> for a closing tag and raises \<^verbatim>\<open>MarkupError\<close>. Raised inside the handler,
  this exception leaves \<^verbatim>\<open>get_mod_id_from_jar\<close> and ends \<^verbatim>\<open>main\<close> with nothing
  printed.
\<close>

theorem failed_read_message_raises:
  "ZipFile lib0 ''M'' = Inr enc_zip \<and>
   candidates_of enc_zip = [''[/b]/fabric.mod.json''] \<and>
   zread enc_zip ''[/b]/fabric.mod.json'' = Inl RuntimeError \<and>
   rich_print lib0 (FailedToRead ''./.minecraft/mods/m.jar'' RuntimeError) = Some MarkupError \<and>
   get_mod_id_from_jar lib0 ''./.minecraft/mods/m.jar'' markup_state
     = (Inl MarkupError, markup_state) \<and>
   main lib0 ''1.20.1'' markup_state =
     (Some MarkupError,
      \<lparr>fs = [(''./.minecraft/mods/m.jar'', ''M'')], store = None, stdin = [], cache = [],
       updated_mods = [], trace = []\<rparr>)"
  by code_simp

lemmas extract_defs =
  get_mod_id_from_jar_def get_mod_id_try_def read_id_utf8_def read_id_latin1_def
  data_get_id_def candidates_of_def endswith_def count_slash_def namelist_def zread_def
  invalid_json_def console_print_def

lemmas example_defs =
  lib0_def zip0_def versions0_def body0_def state0_def foo_state_def bad_state_def
  second_run_state_def

text \<open>
  Claim C7, as stated, fails when two entries have the same name. The archive \<^verbatim>\<open>dup.jar\<close>
  has two entries named \<^verbatim>\<open>fabric.mod.json\<close>, the first with the identifier \<open>first\<close> and
  the second with \<open>second\<close>. Both are candidates with no slash; the first-encountered
  is the first entry, but the extractor opens the candidate by its name, which the
  archive resolves to the last entry of that name, and returns \<open>second\<close>.
\<close>

theorem duplicate_name_reads_last_counterexample:
  "ZipFile lib0 ''Z'' = Inr dup_zip \<and>
   entries dup_zip = [(''fabric.mod.json'', Inr ''F''), (''fabric.mod.json'', Inr ''G'')] \<and>
   json5_load lib0 ''F'' = Inr (PyDict [(''id'', PyStr ''first'')]) \<and>
   json5_load lib0 ''G'' = Inr (PyDict [(''id'', PyStr ''second'')]) \<and>
   fst (get_mod_id_from_jar lib0 ''./.minecraft/mods/dup.jar'' dup_state) = Inr (PyStr ''second'')"
  by code_simp

text \<open>
  Claim C7, amended. Let \<open>cs\<close> be the names of the entries of the archive that end with
  \<^verbatim>\<open>fabric.mod.json\<close>, in archive order, and let there be at least one. The name that the
  extractor takes, the first after the sort, is some \<open>c\<close> of \<open>cs\<close> with no more slashes
  than any other candidate and with strictly fewer than every candidate before it: the
  first of the shallowest names. The entry that is read is the last entry of the archive
  that has this name (the only one when the names of the archive are distinct), and
  its contents decide the result: when they can be read and parse to a dict, directly or
  after a \<^verbatim>\<open>UnicodeDecodeError\<close> through the Latin-1 text, the result is the value of
  \<^verbatim>\<open>id\<close> in that dict, or \<^verbatim>\<open>None\<close> when the dict has no such key.
\<close>

theorem shallowest_name_last_entry:
  assumes "[name \<leftarrow> namelist z. endswith name ''fabric.mod.json''] = cs" and "cs \<noteq> []"
  shows "\<exists>pre c post before r after.
           cs = pre @ c # post \<and>
           (\<forall>d\<in>set pre. count_slash c < count_slash d) \<and>
           (\<forall>d\<in>set post. count_slash c \<le> count_slash d) \<and>
           hd (candidates_of z) = c \<and>
           entries z = before @ (c, r) # after \<and> c \<notin> fst ` set after \<and>
           (\<forall>l p s jar b kvs.
              map_of (fs s) p = Some jar \<and> ZipFile l jar = Inr z \<and> r = Inr b \<and>
              (json5_load l b = Inr (PyDict kvs) \<or>
               json5_load l b = Inl UnicodeDecodeError \<and> json5_loads l b = Inr (PyDict kvs))
              \<longrightarrow> get_mod_id_from_jar l p s =
                    (Inr (case map_of kvs ''id'' of None \<Rightarrow> PyNone | Some v \<Rightarrow> v), s))"
proof -
  from sort_key_first_min [OF assms(2), of count_slash] obtain pre c post where
    cs: "cs = pre @ c # post" and h: "hd (sort_key count_slash cs) = c"
    and pre: "\<forall>d\<in>set pre. count_slash c < count_slash d"
    and post: "\<forall>d\<in>set post. count_slash c \<le> count_slash d"
    by blast
  have hc: "hd (candidates_of z) = c"
    using h assms(1) by (simp add: candidates_of_def)
  have "candidates_of z \<noteq> []"
    using assms by (metis candidates_of_def length_sort length_0_conv)
  then obtain rest where cz: "candidates_of z = c # rest"
    using hc by (cases "candidates_of z") auto
  have "c \<in> set cs" using cs by simp
  then have "c \<in> set (namelist z)" using assms(1) by auto
  from last_entry_read [OF this] obtain before r after where
    e: "entries z = before @ (c, r) # after" and a: "c \<notin> fst ` set after"
    and zr: "zread z c = r"
    by blast
  have rd: "\<forall>l p s jar b kvs.
      map_of (fs s) p = Some jar \<and> ZipFile l jar = Inr z \<and> r = Inr b \<and>
      (json5_load l b = Inr (PyDict kvs) \<or>
       json5_load l b = Inl UnicodeDecodeError \<and> json5_loads l b = Inr (PyDict kvs))
      \<longrightarrow> get_mod_id_from_jar l p s =
            (Inr (case map_of kvs ''id'' of None \<Rightarrow> PyNone | Some v \<Rightarrow> v), s)"
    unfolding get_mod_id_from_jar_def get_mod_id_try_def read_id_utf8_def read_id_latin1_def
      data_get_id_def
    by (auto simp: cz zr)
  show ?thesis
    using cs pre post hc e a rd by blast
qed

theorem shallowest_name_last_entry_witness:
  "[name \<leftarrow> namelist tie_zip. endswith name ''fabric.mod.json'']
     = [''b/fabric.mod.json'', ''a/fabric.mod.json''] \<and>
   hd (candidates_of tie_zip) = ''b/fabric.mod.json'' \<and>
   hd (candidates_of (zip0 ''A'')) = ''fabric.mod.json'' \<and>
   (\<exists>pre c post before r after.
      [''b/fabric.mod.json'', ''a/fabric.mod.json''] = pre @ c # post \<and>
      (\<forall>d\<in>set pre. count_slash c < count_slash d) \<and>
      (\<forall>d\<in>set post. count_slash c \<le> count_slash d) \<and>
      hd (candidates_of tie_zip) = c \<and>
      entries tie_zip = before @ (c, r) # after \<and> c \<notin> fst ` set after)"
proof -
  have f: "[name \<leftarrow> namelist tie_zip. endswith name ''fabric.mod.json'']
             = [''b/fabric.mod.json'', ''a/fabric.mod.json'']"
    by code_simp
  have ne: "[''b/fabric.mod.json'', ''a/fabric.mod.json''] \<noteq> []" by simp
  have h1: "hd (candidates_of tie_zip) = ''b/fabric.mod.json''"
    by code_simp
  have h2: "hd (candidates_of (zip0 ''A'')) = ''fabric.mod.json''"
    by code_simp
  from shallowest_name_last_entry [OF f ne] f h1 h2 show ?thesis by blast
qed





text \<open>
  Claim C2, as stated, fails: with an empty cache the operator is asked for the slug, and
  the identifier of the archive is a key of the cache after the update, which it was not
  before. The archive \<^verbatim>\<open>foo.jar\<close> has the identifier \<open>foo\<close>, and so has the file that is
  downloaded.
\<close>

theorem same_identifier_new_key_counterexample:
  "fst (get_mod_id_from_jar lib0 ''./.minecraft/mods/foo.jar'' (foo_state ''same''))
     = Inr (PyStr ''foo'') \<and>
   fst (main_body lib0 ''1.20.1'' ''foo.jar'' (foo_state ''same'')) = Updated \<and>
   fst (get_mod_id_from_jar lib0 ''./.minecraft/mods/foo-2.0.jar''
          (snd (main_body lib0 ''1.20.1'' ''foo.jar'' (foo_state ''same''))))
     = Inr (PyStr ''foo'') \<and>
   map_of (cache (foo_state ''same'')) (PyStr ''foo'') = None \<and>
   map_of (cache (snd (main_body lib0 ''1.20.1'' ''foo.jar'' (foo_state ''same''))))
     (PyStr ''foo'') = Some ''same''"
  by code_simp

text \<open>
  Claim C2, amended. When the file that was downloaded has the identifier of the original
  archive, the iteration ends as an update, and validation changes neither the cache nor
  the cache file: they are as the resolution of the slug left them. So the cache has no
  key but those it had before and the identifier of the archive itself, which the
  resolution of the slug adds when the cache had no slug for it; when it had one, the
  cache and the cache file are those from before the iteration. The original archive no
  longer exists, the new file exists, and the update is recorded.
\<close>

theorem same_identifier_keeps_cache:
  assumes ms: "main_slug l file s0 = (Inr (mod_id, slug), s1)"
    and mf: "main_fetch l gv slug s1 = (Inr fname, s2)"
    and nid: "fst (get_mod_id_from_jar l (os_path_join MOD_FOLDER fname) s2) = Inr mod_id"
    and ex: "map_of (fs s0) (os_path_join MOD_FOLDER file) \<noteq> None"
  shows "\<exists>s'. main_body l gv file s0 = (Updated, s') \<and>
     cache s' = cache s1 \<and> store s' = store s1 \<and>
     fst ` set (cache s') \<subseteq> insert mod_id (fst ` set (cache s0)) \<and>
     (\<not> py_not (map_of (cache s0) mod_id) \<longrightarrow> cache s' = cache s0 \<and> store s' = store s0) \<and>
     map_of (fs s') (os_path_join MOD_FOLDER file) = None \<and>
     map_of (fs s') (os_path_join MOD_FOLDER fname) \<noteq> None \<and>
     updated_mods s' = updated_mods s0 @ [(file, fname)]"
proof -
  note a = main_slug_Inr [OF ms]
  note b = main_fetch_Inr [OF mf]
  from b(5) obtain c where c: "fs s2 = AList.update (os_path_join MOD_FOLDER fname) c (fs s1)"
    by blast
  have ne: "os_path_join MOD_FOLDER fname \<noteq> os_path_join MOD_FOLDER file"
    using b(4) ex a(5) by auto
  have ex2: "map_of (fs s2) (os_path_join MOD_FOLDER file) \<noteq> None"
    using ex a(5) c ne by simp
  note f = main_finish_same [OF nid ex2, of slug]
  let ?r = "main_body l gv file s0"
  have e: "?r = main_finish l file mod_id slug fname s2"
    by (rule main_body_finish [OF ms mf])
  have "?r = (Updated, snd ?r)"
    using f(1) e by (metis prod.collapse)
  moreover have "cache (snd ?r) = cache s1" "store (snd ?r) = store s1"
    using f(2,3) b(1,2) e by simp_all
  moreover have "fst ` set (cache (snd ?r)) \<subseteq> insert mod_id (fst ` set (cache s0))"
    using f(2) b(1) a(7) e by simp
  moreover have "\<not> py_not (map_of (cache s0) mod_id) \<longrightarrow>
      cache (snd ?r) = cache s0 \<and> store (snd ?r) = store s0"
    using f(2,3) b(1,2) a(8) e by simp
  moreover have "map_of (fs (snd ?r)) (os_path_join MOD_FOLDER file) = None"
    using f(4) e by simp
  moreover have "map_of (fs (snd ?r)) (os_path_join MOD_FOLDER fname) \<noteq> None"
    using f(4) e c ne by simp
  moreover have "updated_mods (snd ?r) = updated_mods s0 @ [(file, fname)]"
    using f(5) e b(3) a(6) by simp
  ultimately show ?thesis by blast
qed

theorem same_identifier_keeps_cache_witness:
  "\<exists>s'. main_body lib0 ''1.20.1'' ''foo.jar'' (foo_state ''same'') = (Updated, s') \<and>
     fst ` set (cache s') \<subseteq> insert (PyStr ''foo'') (fst ` set (cache (foo_state ''same''))) \<and>
     map_of (fs s') (os_path_join MOD_FOLDER ''foo.jar'') = None \<and>
     map_of (fs s') (os_path_join MOD_FOLDER ''foo-2.0.jar'') \<noteq> None \<and>
     updated_mods s' = updated_mods (foo_state ''same'') @ [(''foo.jar'', ''foo-2.0.jar'')]"
proof -
  define s1 where "s1 = snd (main_slug lib0 ''foo.jar'' (foo_state ''same''))"
  define s2 where "s2 = snd (main_fetch lib0 ''1.20.1'' ''same'' s1)"
  have ms: "main_slug lib0 ''foo.jar'' (foo_state ''same'') = (Inr (PyStr ''foo'', ''same''), s1)"
    unfolding s1_def by code_simp
  have mf: "main_fetch lib0 ''1.20.1'' ''same'' s1 = (Inr ''foo-2.0.jar'', s2)"
    unfolding s2_def s1_def by code_simp
  have nid: "fst (get_mod_id_from_jar lib0 (os_path_join MOD_FOLDER ''foo-2.0.jar'') s2)
      = Inr (PyStr ''foo'')"
    unfolding s2_def s1_def by code_simp
  have ex: "map_of (fs (foo_state ''same'')) (os_path_join MOD_FOLDER ''foo.jar'') \<noteq> None"
    by code_simp
  from same_identifier_keeps_cache [OF ms mf nid ex] show ?thesis by blast
qed

text \<open>
  When the file that was downloaded has an identifier other than that of the original
  archive, the message about the change renders and the new identifier can be a key of
  a dict, the iteration ends as an update: the old identifier, which was mapped to the
  slug, is no longer a key of the cache, the new identifier is mapped to that slug, the
  cache file holds the new cache, the original archive no longer exists, the new file
  exists, the update is recorded, and the change of identifier has been printed.
\<close>

lemma main_body_changed:
  assumes ms: "main_slug l file s0 = (Inr (mod_id, slug), s1)"
    and mf: "main_fetch l gv slug s1 = (Inr fname, s2)"
    and nid: "fst (get_mod_id_from_jar l (os_path_join MOD_FOLDER fname) s2) = Inr new_id"
    and diff: "new_id \<noteq> mod_id" and hn: "hashable new_id"
    and rp: "rich_print l (ModIDChanged mod_id new_id) = None"
    and ex: "map_of (fs s0) (os_path_join MOD_FOLDER file) \<noteq> None"
  shows "\<exists>s'. main_body l gv file s0 = (Updated, s') \<and>
     map_of (cache s1) mod_id = Some slug \<and>
     map_of (cache s') mod_id = None \<and>
     map_of (cache s') new_id = Some slug \<and>
     store s' = Some (cache s') \<and>
     map_of (fs s') (os_path_join MOD_FOLDER file) = None \<and>
     map_of (fs s') (os_path_join MOD_FOLDER fname) \<noteq> None \<and>
     updated_mods s' = updated_mods s0 @ [(file, fname)] \<and>
     Print (ModIDChanged mod_id new_id) \<in> set (trace s')"
proof -
  note a = main_slug_Inr [OF ms]
  note b = main_fetch_Inr [OF mf]
  from b(5) obtain c where c: "fs s2 = AList.update (os_path_join MOD_FOLDER fname) c (fs s1)"
    by blast
  have ne: "os_path_join MOD_FOLDER fname \<noteq> os_path_join MOD_FOLDER file"
    using b(4) ex a(5) by auto
  have ex2: "map_of (fs s2) (os_path_join MOD_FOLDER file) \<noteq> None"
    using ex a(5) c ne by simp
  have mo: "map_of (cache s2) mod_id = Some slug"
    using a(3) b(1) by simp
  note f = main_finish_changed [OF nid diff hn a(2) mo ex2 rp, of slug]
  let ?r = "main_body l gv file s0"
  have e: "?r = main_finish l file mod_id slug fname s2"
    by (rule main_body_finish [OF ms mf])
  have "?r = (Updated, snd ?r)"
    using f(1) e by (metis prod.collapse)
  moreover have "map_of (cache (snd ?r)) mod_id = None"
    "map_of (cache (snd ?r)) new_id = Some slug"
    using f(2) e diff by simp_all
  moreover have "store (snd ?r) = Some (cache (snd ?r))"
    using f(3) e by simp
  moreover have "map_of (fs (snd ?r)) (os_path_join MOD_FOLDER file) = None"
    using f(4) e by simp
  moreover have "map_of (fs (snd ?r)) (os_path_join MOD_FOLDER fname) \<noteq> None"
    using f(4) e c ne by simp
  moreover have "updated_mods (snd ?r) = updated_mods s0 @ [(file, fname)]"
    using f(5) e b(3) a(6) by simp
  moreover have "Print (ModIDChanged mod_id new_id) \<in> set (trace (snd ?r))"
    using f(6) e by simp
  ultimately show ?thesis using a(3) by blast
qed

lemma absent_new_identifier_rekeys:
  assumes ms: "main_slug l file s0 = (Inr (mod_id, slug), s1)"
    and mf: "main_fetch l gv slug s1 = (Inr fname, s2)"
    and nid: "fst (get_mod_id_from_jar l (os_path_join MOD_FOLDER fname) s2) = Inr PyNone"
    and orig: "mod_id \<noteq> PyNone"
    and rp: "rich_print l (ModIDChanged mod_id PyNone) = None"
    and ex: "map_of (fs s0) (os_path_join MOD_FOLDER file) \<noteq> None"
  shows "\<exists>s'. main_body l gv file s0 = (Updated, s') \<and>
     map_of (cache s') PyNone = Some slug \<and>
     map_of (cache s') mod_id = None \<and>
     store s' = Some (cache s') \<and>
     map_of (fs s') (os_path_join MOD_FOLDER file) = None \<and>
     updated_mods s' = updated_mods s0 @ [(file, fname)]"
proof -
  have d: "PyNone \<noteq> mod_id" using orig by simp
  have h: "hashable PyNone" by simp
  from main_body_changed [OF ms mf nid d h rp ex] show ?thesis by blast
qed

text \<open>
  Claim C3 is not what the program does for every new identifier. The file downloaded
  for \<^verbatim>\<open>foo.jar\<close> (identifier \<open>foo\<close>) has the identifier \<^verbatim>\<open>[/x]\<close>. Line 158 prints the
  two identifiers through the console before the cache is touched; the console takes
  \<^verbatim>\<open>[/x]\<close> for a closing tag and raises \<^verbatim>\<open>MarkupError\<close>, which ends the program: the
  old identifier is still a key of the cache, the new one is not, the original archive
  is still there beside the new file, and no update is recorded. When the new
  identifier is a list, the message is printed and \<^verbatim>\<open>cache[new_id] = slug\<close> raises
  \<^verbatim>\<open>TypeError\<close>, with the same result.
\<close>

theorem changed_identifier_message_raises:
  "main_body lib0 ''1.20.1'' ''foo.jar'' (foo_state ''markup'') =
     (Crashed MarkupError,
      \<lparr>fs = [(''./.minecraft/mods/foo.jar'', ''A''), (''./.minecraft/mods/foo-2.0.jar'', ''D'')],
       store = Some [(PyStr ''foo'', ''markup'')],
       stdin = [],
       cache = [(PyStr ''foo'', ''markup'')],
       updated_mods = [],
       trace =
         [CacheGet (PyStr ''foo''), Print (UnknownModID (PyStr ''foo'')),
          Print (FileLine ''foo.jar''), Input ''markup'',
          CacheSet (PyStr ''foo'') ''markup'',
          CacheSaved [(PyStr ''foo'', ''markup'')],
          HttpGet ''https://api.modrinth.com/v2/project/markup/version'',
          Print (UpdatingMsg ''markup''), HttpGet ''uD'',
          FileWrite ''./.minecraft/mods/foo-2.0.jar'']\<rparr>) \<and>
   fst (get_mod_id_from_jar lib0 ''./.minecraft/mods/foo-2.0.jar''
          (snd (main_body lib0 ''1.20.1'' ''foo.jar'' (foo_state ''markup''))))
     = Inr (PyStr ''[/x]'') \<and>
   main_body lib0 ''1.20.1'' ''foo.jar'' (foo_state ''listid'') =
     (Crashed TypeError,
      \<lparr>fs = [(''./.minecraft/mods/foo.jar'', ''A''), (''./.minecraft/mods/foo-2.0.jar'', ''E'')],
       store = Some [(PyStr ''foo'', ''listid'')],
       stdin = [],
       cache = [(PyStr ''foo'', ''listid'')],
       updated_mods = [],
       trace =
         [CacheGet (PyStr ''foo''), Print (UnknownModID (PyStr ''foo'')),
          Print (FileLine ''foo.jar''), Input ''listid'',
          CacheSet (PyStr ''foo'') ''listid'',
          CacheSaved [(PyStr ''foo'', ''listid'')],
          HttpGet ''https://api.modrinth.com/v2/project/listid/version'',
          Print (UpdatingMsg ''listid''), HttpGet ''uE'',
          FileWrite ''./.minecraft/mods/foo-2.0.jar'',
          Print (ModIDChanged (PyStr ''foo'') (PyList [PyStr ''x'']))]\<rparr>)"
  by code_simp

text \<open>
  The rekey of lines 159 to 161 has no test for the old identifier. It is reached only
  with the old identifier in the cache, mapped to the slug, and then, for a new
  identifier that differs and can be a key, it raises nothing, removes the old
  identifier, maps the new one to the slug, leaves every other key alone and writes the
  resulting mapping to the cache file at once. No run of \<^verbatim>\<open>main\<close> performs it on a
  cache without the old identifier.
\<close>

lemma rekey_reached_with_present_key:
  assumes "main_slug l file s0 = (Inr (mod_id, slug), s1)"
    and "main_fetch l gv slug s1 = (Inr fname, s2)"
    and "get_mod_id_from_jar l (os_path_join MOD_FOLDER fname) s2 = (r, s3)"
  shows "map_of (cache s3) mod_id = Some slug" and "hashable mod_id"
proof -
  have "only_prints s2 s3"
    using get_mod_id_from_jar_prints [of s2 l "os_path_join MOD_FOLDER fname"] assms(3) by simp
  then have "cache s3 = cache s2" by (rule only_prints_fields)
  then show "map_of (cache s3) mod_id = Some slug"
    using main_slug_Inr(3) [OF assms(1)] main_fetch_Inr(1) [OF assms(2)] by simp
  show "hashable mod_id"
    by (rule main_slug_Inr(2) [OF assms(1)])
qed

lemma rekey_with_present_key:
  assumes "map_of (cache s) old = Some slug" and "hashable old" and "hashable new"
    and "new \<noteq> old"
  shows "fst (rekey old new slug s) = None \<and>
      map_of (cache (snd (rekey old new slug s))) old = None \<and>
      map_of (cache (snd (rekey old new slug s))) new = Some slug \<and>
      (\<forall>k. k \<noteq> old \<and> k \<noteq> new \<longrightarrow>
         map_of (cache (snd (rekey old new slug s))) k = map_of (cache s) k) \<and>
      store (snd (rekey old new slug s)) = Some (cache (snd (rekey old new slug s))) \<and>
      trace (snd (rekey old new slug s)) =
        trace s @ [CacheSet new slug, CacheDel old,
                   CacheSaved (cache (snd (rekey old new slug s)))]"
  using rekey_present [OF assms, where slug = slug] by simp

text \<open>
  Claim C9. Let the trace so far, replayed from some mapping, be clean and end in what
  the cache file holds. Then after \<^verbatim>\<open>main\<close>, however it ends, the whole trace is
  clean and ends in the cache, and the cache file holds the cache: every \<^verbatim>\<open>cache[k] = v\<close>
  and every \<^verbatim>\<open>del cache[k]\<close> of the run was followed, before anything else but the
  second mutation of a rekey, by a \<^verbatim>\<open>save_cache\<close> that wrote the whole current mapping.
  The same holds for each iteration of the loop by itself.
\<close>

theorem mutations_saved_at_once:
  assumes "replay c0 (trace s0) = (load_cache s0, Clean)"
  shows "persisted c0 (snd (main l gv s0)) \<and>
     (\<forall>file s. persisted c0 s \<longrightarrow> persisted c0 (snd (main_body l gv file s)))"
proof -
  let ?s = "s0\<lparr>cache := load_cache s0, updated_mods := []\<rparr>"
  let ?jars = "[f \<leftarrow> os_listdir MOD_FOLDER ?s. endswith f ''.jar'']"
  have p: "persisted c0 ?s"
    using assms by (simp add: persisted_def load_cache_def)
  have p1: "persisted c0 (emit (Print NoJarFiles) ?s)"
    using p by (simp add: persisted_def load_cache_def)
  have p2: "persisted c0 (snd (main_loop l gv ?jars ?s))"
    by (rule main_loop_persisted [OF p])
  have p3: "persisted c0 (snd (print_summary l (snd (main_loop l gv ?jars ?s))))"
    by (rule print_summary_persisted [OF p2])
  have "persisted c0 (snd (main l gv s0))"
    unfolding main_def Let_def using p1 p2 p3
    by (auto split: prod.splits option.splits)
  then show ?thesis
    using main_body_persisted by blast
qed

theorem mutations_saved_at_once_witness:
  "replay [] (trace (foo_state ''changed'')) = (load_cache (foo_state ''changed''), Clean) \<and>
   persisted [] (snd (main lib0 ''1.20.1'' (foo_state ''changed''))) \<and>
   trace (snd (main lib0 ''1.20.1'' (foo_state ''changed''))) =
      [CacheGet (PyStr ''foo''), Print (UnknownModID (PyStr ''foo'')),
       Print (FileLine ''foo.jar''), Input ''changed'',
       CacheSet (PyStr ''foo'') ''changed'',
       CacheSaved [(PyStr ''foo'', ''changed'')],
       HttpGet ''https://api.modrinth.com/v2/project/changed/version'',
       Print (UpdatingMsg ''changed''), HttpGet ''uC'',
       FileWrite ''./.minecraft/mods/foo-2.0.jar'',
       Print (ModIDChanged (PyStr ''foo'') (PyStr ''bar'')),
       CacheSet (PyStr ''bar'') ''changed'', CacheDel (PyStr ''foo''),
       CacheSaved [(PyStr ''bar'', ''changed'')],
       FileRemove ''./.minecraft/mods/foo.jar'', Advance,
       Print UpdateSummary,
       Print (SummaryLine ''foo.jar'' ''foo-2.0.jar'')]"
proof -
  have h: "replay [] (trace (foo_state ''changed'')) = (load_cache (foo_state ''changed''), Clean)"
    by code_simp
  have t: "trace (snd (main lib0 ''1.20.1'' (foo_state ''changed''))) =
      [CacheGet (PyStr ''foo''), Print (UnknownModID (PyStr ''foo'')),
       Print (FileLine ''foo.jar''), Input ''changed'',
       CacheSet (PyStr ''foo'') ''changed'',
       CacheSaved [(PyStr ''foo'', ''changed'')],
       HttpGet ''https://api.modrinth.com/v2/project/changed/version'',
       Print (UpdatingMsg ''changed''), HttpGet ''uC'',
       FileWrite ''./.minecraft/mods/foo-2.0.jar'',
       Print (ModIDChanged (PyStr ''foo'') (PyStr ''bar'')),
       CacheSet (PyStr ''bar'') ''changed'', CacheDel (PyStr ''foo''),
       CacheSaved [(PyStr ''bar'', ''changed'')],
       FileRemove ''./.minecraft/mods/foo.jar'', Advance,
       Print UpdateSummary,
       Print (SummaryLine ''foo.jar'' ''foo-2.0.jar'')]"
    by code_simp
  from mutations_saved_at_once [OF h, of lib0 "''1.20.1''"] h t show ?thesis by blast
qed

text \<open>Whenever the identifier of an archive is false as a condition (\<^verbatim>\<open>None\<close>, an empty
  string, zero), the message of line 126 and the advance of line 127 are followed by
  the lookup of line 128.\<close>

lemma unreadable_archive_is_looked_up:
  assumes g: "get_mod_id_from_jar l (os_path_join MOD_FOLDER file) s = (Inr mod_id, s1)"
    and f: "\<not> truthy mod_id" and h: "hashable mod_id"
    and rp: "rich_print l (SkippingUnreadable file) = None"
  shows "\<exists>t. trace (snd (main_slug l file s)) =
           trace s1 @ Print (SkippingUnreadable file) # Advance # CacheGet mod_id # t"
  using f h rp
  unfolding main_slug_def g cache_get_def dict_get_def prompt_for_slug_def cache_set_def
    dict_set_def save_cache_def console_print_def
  by (auto simp: Let_def split: list.splits option.splits)

text \<open>
  Claim C1 is not what the program does. The archive \<^verbatim>\<open>bad.jar\<close> is not a zip file and
  its identifier is \<^verbatim>\<open>None\<close>. The program prints that it skips the archive and
  advances the progress bar, and then goes on with line 128: it looks \<^verbatim>\<open>None\<close> up in
  the cache, asks the operator for a slug, stores the slug under the key \<^verbatim>\<open>None\<close> and
  saves the cache, downloads the latest file of that slug, replaces the key and removes
  the archive. The lookup after the message happens for every such archive
  (\<open>unreadable_archive_is_looked_up\<close>): no \<^verbatim>\<open>continue\<close> follows line 127, as one
  follows the advance of every other exit of the loop.
\<close>

theorem unreadable_archive_falls_through:
  "fst (get_mod_id_from_jar lib0 ''./.minecraft/mods/bad.jar'' (bad_state ''same'')) = Inr PyNone \<and>
   main_body lib0 ''1.20.1'' ''bad.jar'' (bad_state ''same'') =
     (Updated,
      \<lparr>fs = [(''./.minecraft/mods/foo-2.0.jar'', ''B'')],
       store = Some [(PyStr ''foo'', ''same'')],
       stdin = [],
       cache = [(PyStr ''foo'', ''same'')],
       updated_mods = [(''bad.jar'', ''foo-2.0.jar'')],
       trace =
         [Print (FailedToRead ''./.minecraft/mods/bad.jar'' BadZipFile),
          Print (SkippingUnreadable ''bad.jar''), Advance, CacheGet PyNone,
          Print (UnknownModID PyNone), Print (FileLine ''bad.jar''),
          Input ''same'', CacheSet PyNone ''same'',
          CacheSaved [(PyNone, ''same'')],
          HttpGet ''https://api.modrinth.com/v2/project/same/version'',
          Print (UpdatingMsg ''same''), HttpGet ''uB'',
          FileWrite ''./.minecraft/mods/foo-2.0.jar'',
          Print (ModIDChanged PyNone (PyStr ''foo'')),
          CacheSet (PyStr ''foo'') ''same'', CacheDel PyNone,
          CacheSaved [(PyStr ''foo'', ''same'')],
          FileRemove ''./.minecraft/mods/bad.jar'', Advance]\<rparr>)"
  by code_simp

text \<open>
  Claim C10 is not what the program does when the original archive is unreadable as
  well, which the missing \<^verbatim>\<open>continue\<close> of claim C1 lets through. Both identifiers are
  \<^verbatim>\<open>None\<close>, validation finds them equal, and there is no rekey: the trace has no
  \<^verbatim>\<open>del\<close>, and the entry of the original identifier, \<^verbatim>\<open>None\<close>, stays in the cache.
  With an original identifier other than \<^verbatim>\<open>None\<close>, and a message about the change
  that renders, the program does what the claim says (\<open>absent_new_identifier_rekeys\<close>).
\<close>

theorem absent_twice_no_rekey:
  "fst (get_mod_id_from_jar lib0 ''./.minecraft/mods/bad.jar'' (bad_state ''broken'')) = Inr PyNone \<and>
   fst (get_mod_id_from_jar lib0 ''./.minecraft/mods/foo-2.0.jar''
          (snd (main_body lib0 ''1.20.1'' ''bad.jar'' (bad_state ''broken'')))) = Inr PyNone \<and>
   main_body lib0 ''1.20.1'' ''bad.jar'' (bad_state ''broken'') =
     (Updated,
      \<lparr>fs = [(''./.minecraft/mods/foo-2.0.jar'', ''X'')],
       store = Some [(PyNone, ''broken'')],
       stdin = [],
       cache = [(PyNone, ''broken'')],
       updated_mods = [(''bad.jar'', ''foo-2.0.jar'')],
       trace =
         [Print (FailedToRead ''./.minecraft/mods/bad.jar'' BadZipFile),
          Print (SkippingUnreadable ''bad.jar''), Advance, CacheGet PyNone,
          Print (UnknownModID PyNone), Print (FileLine ''bad.jar''),
          Input ''broken'', CacheSet PyNone ''broken'',
          CacheSaved [(PyNone, ''broken'')],
          HttpGet ''https://api.modrinth.com/v2/project/broken/version'',
          Print (UpdatingMsg ''broken''), HttpGet ''uX'',
          FileWrite ''./.minecraft/mods/foo-2.0.jar'',
          Print (FailedToRead ''./.minecraft/mods/foo-2.0.jar'' BadZipFile),
          FileRemove ''./.minecraft/mods/bad.jar'', Advance]\<rparr>)"
  by code_simp

end
